theory Spec2Isabelle
  imports Complex_Main
begin

section \<open>The terminal interface of logdog: model of package tui\<close>

text \<open>
  The program is a bubbletea model: one \<open>Model\<close> value, threaded through \<open>Update\<close>
  for every message of the event loop. \<open>Update\<close> reads and changes the file system, reads
  the clock and calls library functions (encoding/json, time, path/filepath, strings,
  fmt, lipgloss). None of that is code of the repository, so the embedding takes it as
  an explicit environment: a type \<open>'w\<close> of states of the outside world and a record
  \<open>'w env\<close> of the operations the source calls on it. Every function of the source that
  touches the outside world takes the environment and the current world, and returns the
  world it leaves behind where it can change it.
\<close>

subsection \<open>Values of the Go runtime\<close>

text \<open>A Go \<open>error\<close> is identified with the text its \<open>Error()\<close> method returns, which is
  what \<open>%v\<close> prints; \<open>nil\<close> is \<open>None\<close> (or the \<open>Inr\<close> side of a result).\<close>

type_synonym error = string

text \<open>\<open>time.Time\<close>: an instant (nanoseconds since the Unix epoch) and the offset of
  its location, in seconds east of UTC, used when the time is printed.\<close>

record Time =
  unixNano :: int
  zoneOffset :: int

definition time_Before :: "Time \<Rightarrow> Time \<Rightarrow> bool" where
  "time_Before t u = (unixNano t < unixNano u)"

text \<open>What \<open>json.Unmarshal\<close> stores in an \<open>any\<close>: nil, bool, float64 (the real number it
  denotes), string, \<open>[]any\<close> and \<open>map[string]any\<close>. A map is the list of its entries, keys
  distinct, in the order in which a \<open>range\<close> loop visits them in the run at hand (Go
  leaves that order open).\<close>

datatype json =
    JNull
  | JBool bool
  | JNumber real
  | JString string
  | JArray "json list"
  | JObject "(string \<times> json) list"

type_synonym entry = "(string \<times> json) list"

text \<open>\<open>len\<close> of a slice is an \<open>int\<close>; indexing outside \<open>[0, len)\<close> panics, which is
  \<open>None\<close>.\<close>

abbreviation len :: "'a list \<Rightarrow> int" where
  "len xs \<equiv> int (length xs)"

definition index :: "'a list \<Rightarrow> int \<Rightarrow> 'a option" where
  "index xs i = (if 0 \<le> i \<and> i < len xs then Some (xs ! nat i) else None)"

subsection \<open>fmt and strings\<close>

definition digit :: "nat \<Rightarrow> char" where
  "digit n = ''0123456789'' ! n"

fun utoa :: "nat \<Rightarrow> string" where
  "utoa n = (if n < 10 then [digit n] else utoa (n div 10) @ [digit (n mod 10)])"

declare utoa.simps [simp del]

text \<open>The verb \<open>%d\<close> on an \<open>int\<close>.\<close>

definition itoa :: "int \<Rightarrow> string" where
  "itoa i = (if i < 0 then CHR ''-'' # utoa (nat (- i)) else utoa (nat i))"

fun strings_Join :: "string list \<Rightarrow> string \<Rightarrow> string" where
  "strings_Join [] sep = ''''"
| "strings_Join [x] sep = x"
| "strings_Join (x # y # ys) sep = x @ sep @ strings_Join (y # ys) sep"

text \<open>The string literals of the source that are not ASCII, as their UTF-8 bytes.\<close>

definition mark_ok :: string where
  "mark_ok = [CHR 0xE2, CHR 0x9C, CHR 0x85]"

definition mark_fail :: string where
  "mark_fail = [CHR 0xE2, CHR 0x9D, CHR 0x8C]"

definition mark_clipboard :: string where
  "mark_clipboard = [CHR 0xF0, CHR 0x9F, CHR 0x93, CHR 0x8B]"

definition newline :: string where
  "newline = [CHR 0x0A]"

subsection \<open>lipgloss styles\<close>

record Style =
  foreground :: "string option"
  background :: "string option"
  bold :: bool

definition NewStyle :: Style where
  "NewStyle = \<lparr>foreground = None, background = None, bold = False\<rparr>"

definition Foreground :: "string \<Rightarrow> Style \<Rightarrow> Style" where
  "Foreground c s = s\<lparr>foreground := Some c\<rparr>"

definition Bold :: "bool \<Rightarrow> Style \<Rightarrow> Style" where
  "Bold b s = s\<lparr>bold := b\<rparr>"

subsection \<open>internal/detector: the Language interface and Config\<close>

record Config =
  LogLevel :: string
  OutputDir :: string
  MaxFiles :: int
  DateFormat :: string

text \<open>An interface value is the record of its methods. \<open>Install\<close> may change the world
  and returns its error (\<open>None\<close> for nil).\<close>

record 'w Language =
  Name :: string
  Detect :: "'w \<Rightarrow> string \<Rightarrow> bool"
  Install :: "'w \<Rightarrow> string \<Rightarrow> Config \<Rightarrow> error option \<times> 'w"
  GetLogPaths :: "'w \<Rightarrow> string \<Rightarrow> string list"

subsection \<open>The environment\<close>

text \<open>
  \<^item> \<open>SupportedLanguages\<close>: the package variable of internal/detector; its one element,
    \<open>GoLanguage\<close>, is not among the sources at hand.
  \<^item> \<open>user_Current\<close>: the home directory of the current user, or the error.
  \<^item> \<open>os_ReadDir\<close>: the entries of a directory, each with its name and \<open>IsDir()\<close>.
  \<^item> \<open>filepath_Walk\<close>: the calls that \<open>filepath.Walk\<close> makes to a walk function that
    always returns nil, in order: the path, and either the error or \<open>info.IsDir()\<close>.
  \<^item> \<open>os_Stat\<close>: the \<open>ModTime()\<close> of the file, or the error.
  \<^item> \<open>os_Remove\<close>: the error (\<open>None\<close> for nil) and the world after the call.
  \<^item> \<open>os_Open\<close>: the error, or the lines that a \<open>bufio.Scanner\<close> on the opened file
    yields until \<open>Scan\<close> returns false.
  \<^item> \<open>time_AddDate t y m d\<close>, \<open>time_Parse layout value\<close>, \<open>time_Format t layout\<close>,
    \<open>json_Unmarshal\<close> (into a nil \<open>map[string]any\<close>), \<open>strings_TrimSpace\<close>,
    \<open>filepath_Join\<close>, \<open>filepath_Base\<close>, \<open>filepath_Ext\<close>, \<open>lipgloss_Render\<close> and the verb
    \<open>%v\<close> of fmt on a decoded JSON value: the library functions of those names.
\<close>

record 'w env =
  SupportedLanguages :: "'w Language list"
  os_Getwd :: "'w \<Rightarrow> string"
  user_Current :: "'w \<Rightarrow> error + string"
  os_ReadDir :: "'w \<Rightarrow> string \<Rightarrow> error + (string \<times> bool) list"
  filepath_Walk :: "'w \<Rightarrow> string \<Rightarrow> (string \<times> (error + bool)) list"
  os_Stat :: "'w \<Rightarrow> string \<Rightarrow> error + Time"
  os_Remove :: "'w \<Rightarrow> string \<Rightarrow> error option \<times> 'w"
  os_Open :: "'w \<Rightarrow> string \<Rightarrow> error + string list"
  time_Now :: "'w \<Rightarrow> Time"
  time_AddDate :: "Time \<Rightarrow> int \<Rightarrow> int \<Rightarrow> int \<Rightarrow> Time"
  time_Parse :: "string \<Rightarrow> string \<Rightarrow> error + Time"
  time_Format :: "Time \<Rightarrow> string \<Rightarrow> string"
  json_Unmarshal :: "string \<Rightarrow> error + entry"
  strings_TrimSpace :: "string \<Rightarrow> string"
  filepath_Join :: "string list \<Rightarrow> string"
  filepath_Base :: "string \<Rightarrow> string"
  filepath_Ext :: "string \<Rightarrow> string"
  lipgloss_Render :: "Style \<Rightarrow> string \<Rightarrow> string"
  fmt_v :: "json \<Rightarrow> string"

definition RFC3339 :: string where
  "RFC3339 = ''2006-01-02T15:04:05Z07:00''"

subsection \<open>The model\<close>

datatype screen =
    screenMain
  | screenInstall
  | screenLogs
  | screenLogView
  | screenSettings
  | screenGlobalProjects

record 'w Model =
  screen :: screen
  projectPath :: string
  language :: "'w Language option"
  config :: Config
  logFiles :: "string list"
  cursor :: int
  message :: string
  confirmingDelete :: bool
  confirmingClear :: bool
  deleteFileIndex :: int
  logContent :: string
  globalProjects :: "string list"
  selectedProject :: string
  retentionDays :: int

text \<open>\<open>tea.Msg\<close>: a key press, with the text of \<open>msg.String()\<close>, or any other message.
  \<open>tea.Cmd\<close>: nil, \<open>tea.Quit\<close> or \<open>tea.ClearScreen\<close>.\<close>

datatype msg = KeyMsg string | OtherMsg

datatype cmd = NoCmd | Quit | ClearScreen

subsection \<open>Construction\<close>

fun DetectLanguage :: "'w Language list \<Rightarrow> 'w \<Rightarrow> string \<Rightarrow> 'w Language option" where
  "DetectLanguage [] w path = None"
| "DetectLanguage (lang # langs) w path =
     (if Detect lang w path then Some lang else DetectLanguage langs w path)"

definition scanGlobalProjects :: "'w env \<Rightarrow> 'w \<Rightarrow> string list" where
  "scanGlobalProjects E w =
     (case user_Current E w of
        Inl err \<Rightarrow> []
      | Inr homeDir \<Rightarrow>
          (case os_ReadDir E w (filepath_Join E [homeDir, ''logdog'']) of
             Inl err \<Rightarrow> []
           | Inr entries \<Rightarrow> map fst (filter snd entries)))"

definition NewModel :: "'w env \<Rightarrow> 'w \<Rightarrow> 'w Model" where
  "NewModel E w =
     (let wd = os_Getwd E w;
          lang = DetectLanguage (SupportedLanguages E) w wd
      in \<lparr>screen = screenMain,
          projectPath = wd,
          language = lang,
          config = \<lparr>LogLevel = ''INFO'', OutputDir = ''logdog/logs'', MaxFiles = 30,
                    DateFormat = ''2006-01-02''\<rparr>,
          logFiles = (case lang of None \<Rightarrow> [] | Some l \<Rightarrow> GetLogPaths l w wd),
          cursor = 0,
          message = '''',
          confirmingDelete = False,
          confirmingClear = False,
          deleteFileIndex = 0,
          logContent = '''',
          globalProjects = scanGlobalProjects E w,
          selectedProject = '''',
          retentionDays = 7\<rparr>)"

subsection \<open>Listing the log files of a global project\<close>

text \<open>The walk function of the source returns nil at every call, so \<open>filepath.Walk\<close>
  visits everything below the root; the paths kept are those of the calls without error,
  on a file that is not a directory, with extension \<open>.json\<close>.\<close>

definition getLogFilesForProject :: "'w env \<Rightarrow> 'w \<Rightarrow> string \<Rightarrow> string list" where
  "getLogFilesForProject E w projectName =
     (case user_Current E w of
        Inl err \<Rightarrow> []
      | Inr homeDir \<Rightarrow>
          (let logsDir = filepath_Join E [homeDir, ''logdog'', projectName]
           in map fst
                (filter (\<lambda>(path, r). case r of
                             Inl err \<Rightarrow> False
                           | Inr isDir \<Rightarrow> \<not> isDir \<and> filepath_Ext E path = ''.json'')
                   (filepath_Walk E w logsDir))))"

subsection \<open>Cursor bound and enter\<close>

definition getMaxCursor :: "'w Model \<Rightarrow> int" where
  "getMaxCursor m =
     (case screen m of
        screenMain \<Rightarrow> 4
      | screenLogs \<Rightarrow> len (logFiles m) - 1
      | screenGlobalProjects \<Rightarrow> len (globalProjects m) - 1
      | _ \<Rightarrow> 0)"

definition handleEnter :: "'w env \<Rightarrow> 'w \<Rightarrow> 'w Model \<Rightarrow> ('w Model \<times> cmd) option" where
  "handleEnter E w m =
     (case screen m of
        screenMain \<Rightarrow>
          (if cursor m = 4 then Some (m, Quit)
           else
             let m1 = (if cursor m = 0 then m\<lparr>screen := screenInstall\<rparr>
                       else if cursor m = 1 then m\<lparr>screen := screenLogs\<rparr>
                       else if cursor m = 2 then m\<lparr>screen := screenGlobalProjects\<rparr>
                       else if cursor m = 3 then m\<lparr>screen := screenSettings\<rparr>
                       else m)
             in Some (m1\<lparr>cursor := 0, message := ''''\<rparr>, NoCmd))
      | screenGlobalProjects \<Rightarrow>
          (if cursor m < len (globalProjects m) then
             (case index (globalProjects m) (cursor m) of
                None \<Rightarrow> None
              | Some project \<Rightarrow>
                  Some (m\<lparr>selectedProject := project,
                          logFiles := getLogFilesForProject E w project,
                          screen := screenLogs,
                          cursor := 0,
                          message := ''''\<rparr>, NoCmd))
           else Some (m, NoCmd))
      | _ \<Rightarrow> Some (m, NoCmd))"

subsection \<open>Viewing a log file\<close>

definition entry_string :: "entry \<Rightarrow> string \<Rightarrow> string" where
  \<comment> \<open>\<open>s, _ := entry[key].(string)\<close>: the empty string when the key is absent or the
      value is not a string.\<close>
  "entry_string e key = (case map_of e key of Some (JString s) \<Rightarrow> s | _ \<Rightarrow> '''')"

definition entry_map :: "entry \<Rightarrow> string \<Rightarrow> (string \<times> json) list" where
  \<comment> \<open>\<open>d, _ := entry[key].(map[string]any)\<close>: the nil map when the key is absent or
      the value is not a map.\<close>
  "entry_map e key = (case map_of e key of Some (JObject kvs) \<Rightarrow> kvs | _ \<Rightarrow> [])"

definition levelColor :: "string \<Rightarrow> string" where
  "levelColor level =
     (if level = ''ERROR'' then ''196''
      else if level = ''WARN'' then ''208''
      else if level = ''INFO'' then ''46''
      else if level = ''DEBUG'' then ''240''
      else ''252'')"

definition formatLogEntry :: "'w env \<Rightarrow> entry \<Rightarrow> string" where
  "formatLogEntry E e =
     (let timestamp = entry_string e ''timestamp'';
          level = entry_string e ''level'';
          text = entry_string e ''message'';
          data = entry_map e ''data'';
          r0 = '''';
          r1 = (if timestamp \<noteq> '''' then
                  r0 @ (case time_Parse E RFC3339 timestamp of
                          Inr t \<Rightarrow> lipgloss_Render E (Foreground ''240'' NewStyle)
                                     (time_Format E t ''Jan 02 15:04:05'')
                        | Inl err \<Rightarrow> lipgloss_Render E (Foreground ''240'' NewStyle) timestamp)
                     @ '' ''
                else r0);
          r2 = (if level \<noteq> '''' then
                  r1 @ lipgloss_Render E (Bold True (Foreground (levelColor level) NewStyle))
                         (''['' @ level @ '']'')
                     @ '' ''
                else r1);
          r3 = (if text \<noteq> '''' then
                  r2 @ lipgloss_Render E (Foreground ''252'' NewStyle) text
                else r2);
          r4 = (if len data > 0 then
                  r3 @ '' '' @
                  lipgloss_Render E (Foreground ''99'' NewStyle)
                    (''{'' @ strings_Join (map (\<lambda>(k, v). k @ ''='' @ fmt_v E v) data) '', ''
                       @ ''}'')
                else r3)
      in r4)"

text \<open>The scanner loop of \<open>viewLogContent\<close>, over the lines still to read, with the
  builder \<open>formattedLogs\<close> as accumulator.\<close>

fun scanLoop :: "'w env \<Rightarrow> string list \<Rightarrow> string \<Rightarrow> string" where
  "scanLoop E [] formattedLogs = formattedLogs"
| "scanLoop E (text # rest) formattedLogs =
     (let line = strings_TrimSpace E text
      in if line = '''' then scanLoop E rest formattedLogs
         else (case json_Unmarshal E line of
                 Inr logEntry \<Rightarrow>
                   scanLoop E rest (formattedLogs @ formatLogEntry E logEntry @ newline)
               | Inl err \<Rightarrow>
                   scanLoop E rest (formattedLogs @ line @ newline)))"

definition viewLogContent :: "'w env \<Rightarrow> 'w \<Rightarrow> 'w Model \<Rightarrow> ('w Model \<times> cmd) option" where
  "viewLogContent E w m =
     (case index (logFiles m) (cursor m) of
        None \<Rightarrow> None
      | Some filePath \<Rightarrow>
          (case os_Open E w filePath of
             Inl err \<Rightarrow> Some (m\<lparr>message := mark_fail @ '' Error reading log: '' @ err\<rparr>, NoCmd)
           | Inr lines \<Rightarrow>
               Some (m\<lparr>screen := screenLogView,
                       logContent := scanLoop E lines '''',
                       cursor := 0\<rparr>, NoCmd)))"

definition handleViewLog :: "'w env \<Rightarrow> 'w \<Rightarrow> 'w Model \<Rightarrow> ('w Model \<times> cmd) option" where
  "handleViewLog E w m =
     (if cursor m < len (logFiles m) then viewLogContent E w m else Some (m, NoCmd))"

text \<open>The file name in the header of \<open>renderLogView\<close>, and the whole view.\<close>

definition renderLogView_filename :: "'w env \<Rightarrow> 'w Model \<Rightarrow> string option" where
  "renderLogView_filename E m =
     (if deleteFileIndex m < len (logFiles m) then
        map_option (filepath_Base E) (index (logFiles m) (deleteFileIndex m))
      else Some '''')"

definition renderLogView :: "'w env \<Rightarrow> 'w Model \<Rightarrow> string option" where
  "renderLogView E m =
     (case renderLogView_filename E m of
        None \<Rightarrow> None
      | Some filename \<Rightarrow>
          (let header = lipgloss_Render E (Foreground ''99'' (Bold True NewStyle))
                          (mark_clipboard @ '' Viewing: '' @ filename);
               instructions = lipgloss_Render E (Foreground ''240'' NewStyle)
                                ''Press ESC to go back'';
               content = lipgloss_Render E (Foreground ''252'' NewStyle) (logContent m)
           in Some (header @ newline @ newline @ content @ newline @ newline @ instructions)))"

subsection \<open>Deleting one file\<close>

definition handleDeleteLog :: "'w env \<Rightarrow> 'w Model \<Rightarrow> ('w Model \<times> cmd) option" where
  "handleDeleteLog E m =
     (if cursor m < len (logFiles m) then
        (case index (logFiles m) (cursor m) of
           None \<Rightarrow> None
         | Some filePath \<Rightarrow>
             Some (m\<lparr>message := ''Delete '' @ filepath_Base E filePath @
                                 ''? Press 'y' to confirm, any other key to cancel'',
                     confirmingDelete := True,
                     deleteFileIndex := cursor m\<rparr>, NoCmd))
      else Some (m, NoCmd))"

definition confirmDelete :: "'w env \<Rightarrow> 'w \<Rightarrow> 'w Model \<Rightarrow> ('w Model \<times> cmd \<times> 'w) option" where
  "confirmDelete E w m =
     (if deleteFileIndex m < len (logFiles m) then
        (case index (logFiles m) (deleteFileIndex m) of
           None \<Rightarrow> None
         | Some filePath \<Rightarrow>
             (case os_Remove E w filePath of
                (Some err, w') \<Rightarrow>
                  Some (m\<lparr>message := mark_fail @ '' Failed to delete: '' @ err,
                          confirmingDelete := False\<rparr>, NoCmd, w')
              | (None, w') \<Rightarrow>
                  (let m1 = m\<lparr>message := mark_ok @ '' Deleted '' @ filepath_Base E filePath\<rparr>;
                       m2 = (case language m1 of
                               None \<Rightarrow> m1
                             | Some l \<Rightarrow> m1\<lparr>logFiles := GetLogPaths l w' (projectPath m1)\<rparr>);
                       m3 = (if cursor m2 \<ge> len (logFiles m2) \<and> len (logFiles m2) > 0
                             then m2\<lparr>cursor := len (logFiles m2) - 1\<rparr>
                             else m2)
                   in Some (m3\<lparr>confirmingDelete := False\<rparr>, NoCmd, w'))))
      else Some (m\<lparr>confirmingDelete := False\<rparr>, NoCmd, w))"

subsection \<open>Clearing old files\<close>

text \<open>The loop of \<open>handleClearOldLogs\<close> over the files still to visit, with the slice
  \<open>oldLogs\<close> as accumulator.\<close>

fun oldLogsLoop :: "'w env \<Rightarrow> 'w \<Rightarrow> Time \<Rightarrow> string list \<Rightarrow> string list \<Rightarrow> string list" where
  "oldLogsLoop E w cutoffDate [] oldLogs = oldLogs"
| "oldLogsLoop E w cutoffDate (logFile # rest) oldLogs =
     (case os_Stat E w logFile of
        Inr modTime \<Rightarrow>
          (if time_Before modTime cutoffDate
           then oldLogsLoop E w cutoffDate rest (oldLogs @ [logFile])
           else oldLogsLoop E w cutoffDate rest oldLogs)
      | Inl err \<Rightarrow> oldLogsLoop E w cutoffDate rest oldLogs)"

definition handleClearOldLogs_oldLogs :: "'w env \<Rightarrow> 'w \<Rightarrow> 'w Model \<Rightarrow> string list" where
  \<comment> \<open>the value of \<open>oldLogs\<close> when the loop of \<open>handleClearOldLogs\<close> is over\<close>
  "handleClearOldLogs_oldLogs E w m =
     (let cutoffDate = time_AddDate E (time_Now E w) 0 0 (- retentionDays m)
      in oldLogsLoop E w cutoffDate (logFiles m) [])"

definition handleClearOldLogs :: "'w env \<Rightarrow> 'w \<Rightarrow> 'w Model \<Rightarrow> 'w Model \<times> cmd" where
  "handleClearOldLogs E w m =
     (let oldLogs = handleClearOldLogs_oldLogs E w m
      in if len oldLogs = 0 then
           (m\<lparr>message := ''No log files older than '' @ itoa (retentionDays m) @
                           '' days found''\<rparr>, NoCmd)
         else
           (m\<lparr>message := ''Clear '' @ itoa (len oldLogs) @ '' log files older than '' @
                           itoa (retentionDays m) @
                           '' days? Press 'y' to confirm, any other key to cancel'',
              confirmingClear := True\<rparr>, NoCmd))"

text \<open>The loop of \<open>confirmClearOldLogs\<close>: the world changes with every file removed.\<close>

fun clearLoop ::
  "'w env \<Rightarrow> Time \<Rightarrow> string list \<Rightarrow> 'w \<Rightarrow> int \<Rightarrow> string list \<Rightarrow> 'w \<times> int \<times> string list" where
  "clearLoop E cutoffDate [] w deletedCount errors = (w, deletedCount, errors)"
| "clearLoop E cutoffDate (logFile # rest) w deletedCount errors =
     (case os_Stat E w logFile of
        Inr modTime \<Rightarrow>
          (if time_Before modTime cutoffDate then
             (case os_Remove E w logFile of
                (Some err, w') \<Rightarrow>
                  clearLoop E cutoffDate rest w' deletedCount
                    (errors @ [''Failed to delete '' @ filepath_Base E logFile @ '': '' @ err])
              | (None, w') \<Rightarrow>
                  clearLoop E cutoffDate rest w' (deletedCount + 1) errors)
           else clearLoop E cutoffDate rest w deletedCount errors)
      | Inl err \<Rightarrow> clearLoop E cutoffDate rest w deletedCount errors)"

definition confirmClearOldLogs :: "'w env \<Rightarrow> 'w \<Rightarrow> 'w Model \<Rightarrow> 'w Model \<times> cmd \<times> 'w" where
  "confirmClearOldLogs E w m =
     (let cutoffDate = time_AddDate E (time_Now E w) 0 0 (- retentionDays m)
      in case clearLoop E cutoffDate (logFiles m) w 0 [] of
           (w', deletedCount, errors) \<Rightarrow>
             (let m1 = (case language m of
                          None \<Rightarrow> m
                        | Some l \<Rightarrow> m\<lparr>logFiles := GetLogPaths l w' (projectPath m)\<rparr>);
                  m2 = (if cursor m1 \<ge> len (logFiles m1) \<and> len (logFiles m1) > 0
                        then m1\<lparr>cursor := len (logFiles m1) - 1\<rparr>
                        else if len (logFiles m1) = 0 then m1\<lparr>cursor := 0\<rparr>
                        else m1);
                  m3 = (if len errors > 0 then
                          m2\<lparr>message := mark_ok @ '' Deleted '' @ itoa deletedCount @
                                          '' files. '' @ mark_fail @ '' Errors: '' @
                                          strings_Join errors ''; ''\<rparr>
                        else
                          m2\<lparr>message := mark_ok @ '' Cleared '' @ itoa deletedCount @
                                          '' old log files''\<rparr>)
              in (m3\<lparr>confirmingClear := False\<rparr>, NoCmd, w')))"

subsection \<open>Update\<close>

definition with_world :: "'w \<Rightarrow> ('m \<times> cmd) option \<Rightarrow> ('m \<times> cmd \<times> 'w) option" where
  \<comment> \<open>a handler that leaves the world as it is\<close>
  "with_world w r = map_option (\<lambda>(m, c). (m, c, w)) r"

definition install_enter :: "'w env \<Rightarrow> 'w \<Rightarrow> 'w Model \<Rightarrow> 'w Model \<times> cmd \<times> 'w" where
  \<comment> \<open>the branch of \<open>enter\<close> on the Install screen\<close>
  "install_enter E w m =
     (case language m of
        Some l \<Rightarrow>
          (case Install l w (projectPath m) (config m) of
             (Some err, w') \<Rightarrow>
               (m\<lparr>message := mark_fail @ '' Error: '' @ err,
                  screen := screenMain, cursor := 0\<rparr>, ClearScreen, w')
           | (None, w') \<Rightarrow>
               (m\<lparr>message := mark_ok @
                    '' Logger installed successfully! Check internal/logdog/logger.go'',
                  logFiles := GetLogPaths l w' (projectPath m),
                  screen := screenMain, cursor := 0\<rparr>, ClearScreen, w'))
      | None \<Rightarrow>
          (m\<lparr>message := mark_fail @ '' No supported language detected'',
             screen := screenMain, cursor := 0\<rparr>, ClearScreen, w))"

definition confirming :: "'w Model \<Rightarrow> bool" where
  "confirming m = (confirmingDelete m \<or> confirmingClear m)"

text \<open>The bodies of the cases of the switch on \<open>msg.String()\<close>, in the order of the
  source. A case that ends without \<open>return\<close> falls to the \<open>return m, nil\<close> that closes
  \<open>Update\<close>.\<close>

definition case_up :: "'w \<Rightarrow> 'w Model \<Rightarrow> ('w Model \<times> cmd \<times> 'w) option" where
  "case_up w m =
     (if \<not> confirmingDelete m \<and> \<not> confirmingClear m then
        Some ((if cursor m > 0 then m\<lparr>cursor := cursor m - 1\<rparr> else m)\<lparr>message := ''''\<rparr>,
              NoCmd, w)
      else Some (m, NoCmd, w))"

definition case_down :: "'w \<Rightarrow> 'w Model \<Rightarrow> ('w Model \<times> cmd \<times> 'w) option" where
  "case_down w m =
     (if \<not> confirmingDelete m \<and> \<not> confirmingClear m then
        Some ((if cursor m < getMaxCursor m then m\<lparr>cursor := cursor m + 1\<rparr> else m)
                \<lparr>message := ''''\<rparr>, NoCmd, w)
      else Some (m, NoCmd, w))"

definition case_enter :: "'w env \<Rightarrow> 'w \<Rightarrow> 'w Model \<Rightarrow> ('w Model \<times> cmd \<times> 'w) option" where
  "case_enter E w m =
     (if \<not> confirmingDelete m \<and> \<not> confirmingClear m then
        (if screen m = screenInstall then Some (install_enter E w m)
         else with_world w (handleEnter E w m))
      else Some (m, NoCmd, w))"

definition case_v :: "'w env \<Rightarrow> 'w \<Rightarrow> 'w Model \<Rightarrow> ('w Model \<times> cmd \<times> 'w) option" where
  "case_v E w m =
     (if screen m = screenLogs \<and> len (logFiles m) > 0 \<and>
         \<not> confirmingDelete m \<and> \<not> confirmingClear m
      then with_world w (handleViewLog E w m)
      else Some (m, NoCmd, w))"

definition case_d :: "'w env \<Rightarrow> 'w \<Rightarrow> 'w Model \<Rightarrow> ('w Model \<times> cmd \<times> 'w) option" where
  "case_d E w m =
     (if screen m = screenLogs \<and> len (logFiles m) > 0 \<and>
         \<not> confirmingDelete m \<and> \<not> confirmingClear m
      then with_world w (handleDeleteLog E m)
      else Some (m, NoCmd, w))"

definition case_c :: "'w env \<Rightarrow> 'w \<Rightarrow> 'w Model \<Rightarrow> ('w Model \<times> cmd \<times> 'w) option" where
  "case_c E w m =
     (if screen m = screenLogs \<and> len (logFiles m) > 0 \<and>
         \<not> confirmingDelete m \<and> \<not> confirmingClear m
      then with_world w (Some (handleClearOldLogs E w m))
      else Some (m, NoCmd, w))"

definition case_y :: "'w env \<Rightarrow> 'w \<Rightarrow> 'w Model \<Rightarrow> ('w Model \<times> cmd \<times> 'w) option" where
  "case_y E w m =
     (if confirmingDelete m then confirmDelete E w m
      else if confirmingClear m then Some (confirmClearOldLogs E w m)
      else Some (m, NoCmd, w))"

definition case_plus :: "'w \<Rightarrow> 'w Model \<Rightarrow> ('w Model \<times> cmd \<times> 'w) option" where
  "case_plus w m =
     (if screen m = screenSettings \<and> \<not> confirmingDelete m \<and> \<not> confirmingClear m then
        (if retentionDays m < 365 then
           Some (m\<lparr>retentionDays := retentionDays m + 1,
                   message := ''Retention set to '' @ itoa (retentionDays m + 1) @ '' days''\<rparr>,
                 NoCmd, w)
         else Some (m, NoCmd, w))
      else Some (m, NoCmd, w))"

definition case_minus :: "'w \<Rightarrow> 'w Model \<Rightarrow> ('w Model \<times> cmd \<times> 'w) option" where
  "case_minus w m =
     (if screen m = screenSettings \<and> \<not> confirmingDelete m \<and> \<not> confirmingClear m then
        (if retentionDays m > 1 then
           Some (m\<lparr>retentionDays := retentionDays m - 1,
                   message := ''Retention set to '' @ itoa (retentionDays m - 1) @ '' days''\<rparr>,
                 NoCmd, w)
         else Some (m, NoCmd, w))
      else Some (m, NoCmd, w))"

definition case_esc :: "'w \<Rightarrow> 'w Model \<Rightarrow> ('w Model \<times> cmd \<times> 'w) option" where
  "case_esc w m =
     (if confirmingDelete m \<or> confirmingClear m then
        Some (m\<lparr>confirmingDelete := False, confirmingClear := False, message := ''''\<rparr>,
              NoCmd, w)
      else
        Some (m\<lparr>screen := screenMain, cursor := 0, message := '''',
                confirmingDelete := False, confirmingClear := False,
                logContent := '''', selectedProject := ''''\<rparr>, NoCmd, w))"

definition case_default :: "'w \<Rightarrow> 'w Model \<Rightarrow> ('w Model \<times> cmd \<times> 'w) option" where
  "case_default w m =
     (if confirmingDelete m \<or> confirmingClear m then
        Some (m\<lparr>confirmingDelete := False, confirmingClear := False, message := ''''\<rparr>,
              NoCmd, w)
      else Some (m\<lparr>message := ''''\<rparr>, NoCmd, w))"

definition Update_key :: "'w env \<Rightarrow> 'w \<Rightarrow> 'w Model \<Rightarrow> string \<Rightarrow> ('w Model \<times> cmd \<times> 'w) option" where
  "Update_key E w m k =
     (if k = ''q'' \<or> k = ''ctrl+c'' then Some (m, Quit, w)
      else if k = ''up'' \<or> k = ''k'' then case_up w m
      else if k = ''down'' \<or> k = ''j'' then case_down w m
      else if k = ''enter'' then case_enter E w m
      else if k = ''v'' then case_v E w m
      else if k = ''d'' then case_d E w m
      else if k = ''c'' then case_c E w m
      else if k = ''y'' then case_y E w m
      else if k = ''+'' \<or> k = ''='' then case_plus w m
      else if k = ''-'' \<or> k = ''_'' then case_minus w m
      else if k = ''esc'' then case_esc w m
      else case_default w m)"

definition Update :: "'w env \<Rightarrow> 'w \<Rightarrow> 'w Model \<Rightarrow> msg \<Rightarrow> ('w Model \<times> cmd \<times> 'w) option" where
  "Update E w m x = (case x of KeyMsg k \<Rightarrow> Update_key E w m k | OtherMsg \<Rightarrow> Some (m, NoCmd, w))"

subsection \<open>Runs\<close>

text \<open>The event loop hands the messages to \<open>Update\<close> one after the other and stops at
  \<open>tea.Quit\<close> or at a panic (\<open>None\<close>).\<close>

fun run :: "'w env \<Rightarrow> 'w \<Rightarrow> 'w Model \<Rightarrow> msg list \<Rightarrow> ('w Model \<times> 'w) option" where
  "run E w m [] = Some (m, w)"
| "run E w m (x # xs) =
     (case Update E w m x of
        None \<Rightarrow> None
      | Some (m', c, w') \<Rightarrow> if c = Quit then Some (m', w') else run E w' m' xs)"

text \<open>The states that the program can be in, with the world at that moment: the state
  built by \<open>NewModel\<close>, then any number of messages, the world changing in any way between
  two messages (the clock advances, other processes write and delete files).\<close>

inductive reachable :: "'w env \<Rightarrow> 'w \<Rightarrow> 'w Model \<Rightarrow> bool" for E :: "'w env" where
  start: "reachable E w (NewModel E w)"
| world: "reachable E w m \<Longrightarrow> reachable E w' m"
| update: "reachable E w m \<Longrightarrow> Update E w m x = Some (m', c, w') \<Longrightarrow> reachable E w' m'"

section \<open>An environment for the examples\<close>

text \<open>
  A small file system, a clock and plain versions of the library functions, to run the
  model on concrete inputs. Paths are clean and absolute, with \<open>/\<close> as separator. The
  nodes of the file system, directories and files, are listed in the order in which the
  system reports them when a directory is read or walked.
\<close>

record fnode =
  f_isDir :: bool
  f_modTime :: Time
  f_lines :: "string list"
  f_immutable :: bool

record fsys =
  fs_cwd :: string
  fs_home :: "error + string"
  fs_nodes :: "(string \<times> fnode) list"
  fs_clock :: Time

definition path_dir :: "string \<Rightarrow> string" where
  "path_dir p = rev (drop 1 (dropWhile (\<lambda>c. c \<noteq> CHR ''/'') (rev p)))"

definition Base0 :: "string \<Rightarrow> string" where
  "Base0 p =
     (if p = '''' then ''.''
      else let q = dropWhile (\<lambda>c. c = CHR ''/'') (rev p)
           in if q = '''' then ''/'' else rev (takeWhile (\<lambda>c. c \<noteq> CHR ''/'') q))"

definition Ext0 :: "string \<Rightarrow> string" where
  "Ext0 p =
     (let b = takeWhile (\<lambda>c. c \<noteq> CHR ''/'') (rev p)
      in if CHR ''.'' \<in> set b then rev (takeWhile (\<lambda>c. c \<noteq> CHR ''.'') b @ ''.'') else '''')"

definition Join0 :: "string list \<Rightarrow> string" where
  "Join0 elems = strings_Join (filter (\<lambda>e. e \<noteq> '''') elems) ''/''"

definition below :: "string \<Rightarrow> string \<Rightarrow> bool" where
  \<comment> \<open>\<open>p\<close> lies inside the directory \<open>d\<close>, at any depth\<close>
  "below d p = (length d < length p \<and> take (length d + 1) p = d @ ''/'')"

definition Stat0 :: "fsys \<Rightarrow> string \<Rightarrow> error + Time" where
  "Stat0 w p =
     (case map_of (fs_nodes w) p of
        Some f \<Rightarrow> Inr (f_modTime f)
      | None \<Rightarrow> Inl (''stat '' @ p @ '': no such file or directory''))"

definition Remove0 :: "fsys \<Rightarrow> string \<Rightarrow> error option \<times> fsys" where
  "Remove0 w p =
     (case map_of (fs_nodes w) p of
        None \<Rightarrow> (Some (''remove '' @ p @ '': no such file or directory''), w)
      | Some f \<Rightarrow>
          if f_immutable f then (Some (''remove '' @ p @ '': operation not permitted''), w)
          else if f_isDir f \<and> filter (below p) (map fst (fs_nodes w)) \<noteq> [] then
            (Some (''remove '' @ p @ '': directory not empty''), w)
          else (None, w\<lparr>fs_nodes := filter (\<lambda>(q, g). q \<noteq> p) (fs_nodes w)\<rparr>))"

definition Open0 :: "fsys \<Rightarrow> string \<Rightarrow> error + string list" where
  \<comment> \<open>a scanner on a directory yields no line\<close>
  "Open0 w p =
     (case map_of (fs_nodes w) p of
        Some f \<Rightarrow> Inr (if f_isDir f then [] else f_lines f)
      | None \<Rightarrow> Inl (''open '' @ p @ '': no such file or directory''))"

definition ReadDir0 :: "fsys \<Rightarrow> string \<Rightarrow> error + (string \<times> bool) list" where
  "ReadDir0 w d =
     (case map_of (fs_nodes w) d of
        None \<Rightarrow> Inl (''open '' @ d @ '': no such file or directory'')
      | Some f \<Rightarrow>
          if f_isDir f then
            Inr (map (\<lambda>(p, g). (Base0 p, f_isDir g))
                   (filter (\<lambda>(p, g). path_dir p = d) (fs_nodes w)))
          else Inl (''readdirent '' @ d @ '': not a directory''))"

definition Walk0 :: "fsys \<Rightarrow> string \<Rightarrow> (string \<times> (error + bool)) list" where
  "Walk0 w d =
     (case map_of (fs_nodes w) d of
        None \<Rightarrow> [(d, Inl (''lstat '' @ d @ '': no such file or directory''))]
      | Some f \<Rightarrow>
          (d, Inr (f_isDir f)) #
          map (\<lambda>(p, g). (p, Inr (f_isDir g))) (filter (\<lambda>(p, g). below d p) (fs_nodes w)))"

subsection \<open>Calendar time\<close>

text \<open>Days since 1970-01-01 of a date of the proleptic Gregorian calendar, and back.\<close>

definition days_from_civil :: "int \<Rightarrow> int \<Rightarrow> int \<Rightarrow> int" where
  "days_from_civil y m d =
     (let y1 = (if m \<le> 2 then y - 1 else y);
          era = y1 div 400;
          yoe = y1 - era * 400;
          doy = (153 * (if m > 2 then m - 3 else m + 9) + 2) div 5 + d - 1;
          doe = yoe * 365 + yoe div 4 - yoe div 100 + doy
      in era * 146097 + doe - 719468)"

definition civil_from_days :: "int \<Rightarrow> int \<times> int \<times> int" where
  "civil_from_days z =
     (let z1 = z + 719468;
          era = z1 div 146097;
          doe = z1 - era * 146097;
          yoe = (doe - doe div 1460 + doe div 36524 - doe div 146096) div 365;
          doy = doe - (365 * yoe + yoe div 4 - yoe div 100);
          mp = (5 * doy + 2) div 153;
          d = doy - (153 * mp + 2) div 5 + 1;
          m = (if mp < 10 then mp + 3 else mp - 9);
          y = yoe + era * 400
      in (if m \<le> 2 then y + 1 else y, m, d))"

definition nanos_per_second :: int where
  "nanos_per_second = 1000000000"

definition wall_seconds :: "Time \<Rightarrow> int" where
  \<comment> \<open>seconds since the epoch of the wall clock of the time's location\<close>
  "wall_seconds t = unixNano t div nanos_per_second + zoneOffset t"

definition AddDate0 :: "Time \<Rightarrow> int \<Rightarrow> int \<Rightarrow> int \<Rightarrow> Time" where
  \<comment> \<open>the date moved, the time of day kept, in a location with a fixed offset\<close>
  "AddDate0 t years months days =
     (case civil_from_days (wall_seconds t div 86400) of
        (y, m, d) \<Rightarrow>
          (let m1 = m - 1 + months;
               y1 = y + years + m1 div 12;
               m2 = m1 mod 12 + 1;
               day = days_from_civil y1 m2 1 + (d - 1) + days;
               secs = day * 86400 + wall_seconds t mod 86400 - zoneOffset t
           in t\<lparr>unixNano := secs * nanos_per_second + unixNano t mod nanos_per_second\<rparr>))"

definition two_digits :: "int \<Rightarrow> string" where
  "two_digits n = (if n < 10 then CHR ''0'' # itoa n else itoa n)"

definition month_names :: "string list" where
  "month_names = [''Jan'', ''Feb'', ''Mar'', ''Apr'', ''May'', ''Jun'',
                  ''Jul'', ''Aug'', ''Sep'', ''Oct'', ''Nov'', ''Dec'']"

definition Format0 :: "Time \<Rightarrow> string \<Rightarrow> string" where
  \<comment> \<open>the one layout the program prints with\<close>
  "Format0 t layout =
     (if layout = ''Jan 02 15:04:05'' then
        (case civil_from_days (wall_seconds t div 86400) of
           (y, m, d) \<Rightarrow>
             (let s = wall_seconds t mod 86400
              in month_names ! nat (m - 1) @ '' '' @ two_digits d @ '' '' @
                 two_digits (s div 3600) @ '':'' @ two_digits (s mod 3600 div 60) @ '':'' @
                 two_digits (s mod 60)))
      else layout)"

definition digit_val :: "char \<Rightarrow> int option" where
  "digit_val c = map_of (zip ''0123456789'' [0, 1, 2, 3, 4, 5, 6, 7, 8, 9]) c"

fun number :: "string \<Rightarrow> int \<Rightarrow> int option" where
  \<comment> \<open>the value of a string of decimal digits, after the digits already read\<close>
  "number [] acc = Some acc"
| "number (c # cs) acc =
     (case digit_val c of None \<Rightarrow> None | Some v \<Rightarrow> number cs (10 * acc + v))"

definition days_in :: "int \<Rightarrow> int \<Rightarrow> int" where
  "days_in y m = days_from_civil (if m = 12 then y + 1 else y) (if m = 12 then 1 else m + 1) 1
                   - days_from_civil y m 1"

definition parse_zone :: "string \<Rightarrow> int option" where
  \<comment> \<open>\<open>Z\<close>, or a sign, hours, a colon and minutes\<close>
  "parse_zone z =
     (if z = ''Z'' then Some 0
      else if length z = 6 \<and> (z ! 0 = CHR ''+'' \<or> z ! 0 = CHR ''-'') \<and> z ! 3 = CHR '':'' then
        (case (number (take 2 (drop 1 z)) 0, number (drop 4 z) 0) of
           (Some h, Some mi) \<Rightarrow>
             if h < 24 \<and> mi < 60
             then Some ((if z ! 0 = CHR ''-'' then - 1 else 1) * (h * 3600 + mi * 60))
             else None
         | _ \<Rightarrow> None)
      else None)"

definition Parse0 :: "string \<Rightarrow> string \<Rightarrow> error + Time" where
  \<comment> \<open>the layout RFC3339, for values with whole seconds:
      \<open>YYYY-MM-DDTHH:MM:SS\<close> followed by the zone\<close>
  "Parse0 layout v =
     (let bad = Inl (''parsing time '' @ v @ '' as '' @ layout)
      in if layout \<noteq> RFC3339 \<or> length v < 20 \<or> v ! 4 \<noteq> CHR ''-'' \<or> v ! 7 \<noteq> CHR ''-'' \<or>
            v ! 10 \<noteq> CHR ''T'' \<or> v ! 13 \<noteq> CHR '':'' \<or> v ! 16 \<noteq> CHR '':''
         then bad
         else
           (case (number (take 4 v) 0, number (take 2 (drop 5 v)) 0,
                  number (take 2 (drop 8 v)) 0, number (take 2 (drop 11 v)) 0,
                  number (take 2 (drop 14 v)) 0, number (take 2 (drop 17 v)) 0,
                  parse_zone (drop 19 v)) of
              (Some y, Some m, Some d, Some h, Some mi, Some s, Some off) \<Rightarrow>
                if 1 \<le> m \<and> m \<le> 12 \<and> 1 \<le> d \<and> d \<le> days_in y m \<and> h < 24 \<and> mi < 60 \<and> s < 60
                then Inr \<lparr>unixNano = ((days_from_civil y m d * 86400 + h * 3600 + mi * 60 + s)
                                        - off) * nanos_per_second,
                          zoneOffset = off\<rparr>
                else bad
            | _ \<Rightarrow> bad))"

subsection \<open>Strings, rendering, decoding\<close>

definition is_space :: "char \<Rightarrow> bool" where
  "is_space c = (c \<in> set [CHR '' '', CHR 0x09, CHR 0x0A, CHR 0x0B, CHR 0x0C, CHR 0x0D])"

definition TrimSpace0 :: "string \<Rightarrow> string" where
  \<comment> \<open>white space of ASCII\<close>
  "TrimSpace0 s = rev (dropWhile is_space (rev (dropWhile is_space s)))"

text \<open>The stand-ins below agree with the libraries on part of their inputs only; each says
  on which. The examples stay within those parts.\<close>

definition expand_tabs :: "string \<Rightarrow> string" where
  "expand_tabs s = concat (map (\<lambda>c. if c = CHR 0x09 then ''    '' else [c]) s)"

fun split_lines :: "string \<Rightarrow> string \<Rightarrow> string list" where
  "split_lines [] cur = [rev cur]"
| "split_lines (c # cs) cur =
     (if c = CHR 0x0A then rev cur # split_lines cs [] else split_lines cs (c # cur))"

definition Render0 :: "Style \<Rightarrow> string \<Rightarrow> string" where
  \<comment> \<open>lipgloss on a terminal of 256 colours, for ASCII text and the three attributes of
      \<open>Style\<close>: a tab becomes four spaces; each line stands between the escape sequence
      that selects the attributes and the one that resets them; of several lines, the
      short ones are padded with spaces to the width of the longest\<close>
  "Render0 st s =
     (let codes = (if bold st then [''1''] else []) @
                  (case foreground st of None \<Rightarrow> [] | Some c \<Rightarrow> [''38;5;'' @ c]) @
                  (case background st of None \<Rightarrow> [] | Some c \<Rightarrow> [''48;5;'' @ c]);
          ls = split_lines (expand_tabs s) [];
          width = fold max (map length ls) 0
      in if codes = [] then expand_tabs s
         else strings_Join
                (map (\<lambda>l. [CHR 0x1B] @ ''['' @ strings_Join codes '';'' @ ''m'' @ l @
                           [CHR 0x1B] @ ''[0m'' @ replicate (width - length l) CHR '' '') ls)
                newline)"

definition fmt_float :: "real \<Rightarrow> string" where
  \<comment> \<open>the verb \<open>%v\<close> on a float64 whose value is an integer of magnitude below \<open>2^53\<close>:
      up to six digits print as they are, more digits print as mantissa and exponent
      (\<open>1e+06\<close>, \<open>1.234567e+06\<close>). Other values are not covered: the result \<open>?\<close> says
      nothing about the library.\<close>
  "fmt_float r =
     (if r = of_int \<lfloor>r\<rfloor> \<and> \<bar>r\<bar> < 2 ^ 53 then
        (let ds = utoa (nat \<bar>\<lfloor>r\<rfloor>\<bar>);
             sign = (if r < 0 then ''-'' else '''');
             mant = rev (dropWhile (\<lambda>c. c = CHR ''0'') (rev ds))
         in if length ds \<le> 6 then sign @ ds
            else sign @ take 1 mant @ (if length mant > 1 then ''.'' @ drop 1 mant else '''') @
                 ''e+'' @ two_digits (len ds - 1))
      else ''?'')"

fun str_less :: "string \<Rightarrow> string \<Rightarrow> bool" where
  "str_less [] [] = False"
| "str_less [] (y # ys) = True"
| "str_less (x # xs) [] = False"
| "str_less (x # xs) (y # ys) =
     ((of_char x :: nat) < of_char y \<or> (x = y \<and> str_less xs ys))"

fun insert_keyed :: "string \<times> string \<Rightarrow> (string \<times> string) list \<Rightarrow> (string \<times> string) list" where
  "insert_keyed p [] = [p]"
| "insert_keyed p (q # qs) =
     (if str_less (fst q) (fst p) then q # insert_keyed p qs else p # q # qs)"

fun fmt_v0 :: "json \<Rightarrow> string" where
  \<comment> \<open>the verb \<open>%v\<close> on a decoded value: a slice prints its elements between brackets, a
      map its entries as \<open>key:value\<close> in the order of the keys\<close>
  "fmt_v0 JNull = ''<nil>''"
| "fmt_v0 (JBool b) = (if b then ''true'' else ''false'')"
| "fmt_v0 (JNumber r) = fmt_float r"
| "fmt_v0 (JString s) = s"
| "fmt_v0 (JArray xs) = ''['' @ strings_Join (map fmt_v0 xs) '' '' @ '']''"
| "fmt_v0 (JObject kvs) =
     ''map['' @
     strings_Join
       (map (\<lambda>(k, t). k @ '':'' @ t)
          (foldr insert_keyed (map (\<lambda>kv. (fst kv, fmt_v0 (snd kv))) kvs) []))
       '' '' @ '']''"

definition sample_record :: entry where
  "sample_record =
     [(''timestamp'', JString ''2024-01-15T14:30:45Z''),
      (''level'', JString ''INFO''),
      (''message'', JString ''hi''),
      (''data'', JObject [(''x'', JNumber 1)])]"

definition quote :: char where
  "quote = CHR 0x22"

definition sample_line :: string where
  "sample_line =
     ''{'' @ [quote] @ ''timestamp'' @ [quote] @ '':'' @ [quote] @ ''2024-01-15T14:30:45Z'' @
     [quote] @ '','' @ [quote] @ ''level'' @ [quote] @ '':'' @ [quote] @ ''INFO'' @ [quote] @
     '','' @ [quote] @ ''message'' @ [quote] @ '':'' @ [quote] @ ''hi'' @ [quote] @ '','' @
     [quote] @ ''data'' @ [quote] @ '':{'' @ [quote] @ ''x'' @ [quote] @ '':1}}''"

text \<open>A decoder for a fragment of JSON: objects, arrays, strings of printable ASCII
  without escape sequences, integers of magnitude below \<open>2^53\<close> written without fraction
  and exponent, \<open>true\<close>, \<open>false\<close> and \<open>null\<close>, with white space between the tokens. On a
  text of the fragment, and on a text that is not JSON at all, \<open>Unmarshal0\<close> is what
  \<open>json.Unmarshal\<close> into a nil \<open>map[string]any\<close> gives: an object decodes to its map, the
  last value of a repeated key staying; \<open>null\<close> leaves the map nil and is no error; any
  other value is an error. JSON outside the fragment is reported as an error too, which
  says nothing about the library. The recursion is bounded by the length of the text.\<close>

definition is_json_space :: "char \<Rightarrow> bool" where
  "is_json_space c = (c \<in> set [CHR '' '', CHR 0x09, CHR 0x0A, CHR 0x0D])"

definition skip_space :: "string \<Rightarrow> string" where
  "skip_space s = dropWhile is_json_space s"

definition is_digit :: "char \<Rightarrow> bool" where
  "is_digit c = (digit_val c \<noteq> None)"

definition plain_char :: "char \<Rightarrow> bool" where
  "plain_char c = (32 \<le> (of_char c :: nat) \<and> (of_char c :: nat) < 127 \<and> c \<noteq> CHR 0x5C)"

definition parse_string :: "string \<Rightarrow> (string \<times> string) option" where
  \<comment> \<open>after the opening quote: the text up to the closing quote, and what follows it\<close>
  "parse_string s =
     (let body = takeWhile (\<lambda>c. c \<noteq> quote) s;
          rest = dropWhile (\<lambda>c. c \<noteq> quote) s
      in if rest = [] \<or> \<not> list_all plain_char body then None else Some (body, drop 1 rest))"

definition parse_int :: "string \<Rightarrow> (json \<times> string) option" where
  "parse_int s =
     (let neg = (take 1 s = ''-'');
          s1 = (if neg then drop 1 s else s);
          ds = takeWhile is_digit s1;
          rest = dropWhile is_digit s1
      in if ds = [] \<or> (length ds > 1 \<and> take 1 ds = ''0'') \<or>
            take 1 rest = ''.'' \<or> take 1 rest = ''e'' \<or> take 1 rest = ''E''
         then None
         else (case number ds 0 of
                 None \<Rightarrow> None
               | Some n \<Rightarrow>
                   if n \<ge> 2 ^ 53 \<or> (neg \<and> n = 0) then None
                   else Some (JNumber (of_int (if neg then - n else n)), rest)))"

fun parse_value :: "nat \<Rightarrow> string \<Rightarrow> (json \<times> string) option"
  and parse_members ::
    "nat \<Rightarrow> string \<Rightarrow> (string \<times> json) list \<Rightarrow> ((string \<times> json) list \<times> string) option"
  and parse_elements :: "nat \<Rightarrow> string \<Rightarrow> json list \<Rightarrow> (json list \<times> string) option" where
  "parse_value 0 s = None"
| "parse_value (Suc n) s =
     (if take 1 s = ''{'' then
        (if take 1 (skip_space (drop 1 s)) = ''}''
         then Some (JObject [], drop 1 (skip_space (drop 1 s)))
         else map_option (\<lambda>(kvs, rest). (JObject kvs, rest))
                (parse_members n (skip_space (drop 1 s)) []))
      else if take 1 s = ''['' then
        (if take 1 (skip_space (drop 1 s)) = '']''
         then Some (JArray [], drop 1 (skip_space (drop 1 s)))
         else map_option (\<lambda>(xs, rest). (JArray xs, rest))
                (parse_elements n (skip_space (drop 1 s)) []))
      else if take 1 s = [quote] then
        map_option (\<lambda>(b, rest). (JString b, rest)) (parse_string (drop 1 s))
      else if take 4 s = ''null'' then Some (JNull, drop 4 s)
      else if take 4 s = ''true'' then Some (JBool True, drop 4 s)
      else if take 5 s = ''false'' then Some (JBool False, drop 5 s)
      else parse_int s)"
| "parse_members 0 s acc = None"
| "parse_members (Suc n) s acc =
     (if take 1 s \<noteq> [quote] then None
      else
        (case parse_string (drop 1 s) of
           None \<Rightarrow> None
         | Some (k, r1) \<Rightarrow>
             if take 1 (skip_space r1) \<noteq> '':'' then None
             else
               (case parse_value n (skip_space (drop 1 (skip_space r1))) of
                  None \<Rightarrow> None
                | Some (v, r2) \<Rightarrow>
                    (let acc' = filter (\<lambda>kv. fst kv \<noteq> k) acc @ [(k, v)];
                         r3 = skip_space r2
                     in if take 1 r3 = '','' then parse_members n (skip_space (drop 1 r3)) acc'
                        else if take 1 r3 = ''}'' then Some (acc', drop 1 r3)
                        else None))))"
| "parse_elements 0 s acc = None"
| "parse_elements (Suc n) s acc =
     (case parse_value n s of
        None \<Rightarrow> None
      | Some (v, r1) \<Rightarrow>
          (let r2 = skip_space r1
           in if take 1 r2 = '','' then parse_elements n (skip_space (drop 1 r2)) (acc @ [v])
              else if take 1 r2 = '']'' then Some (acc @ [v], drop 1 r2)
              else None))"

definition Unmarshal0 :: "string \<Rightarrow> error + entry" where
  "Unmarshal0 s =
     (case parse_value (Suc (length s)) (skip_space s) of
        None \<Rightarrow> Inl ''invalid character looking for beginning of value''
      | Some (v, rest) \<Rightarrow>
          if skip_space rest \<noteq> '''' then Inl ''invalid character after top-level value''
          else (case v of
                  JObject kvs \<Rightarrow> Inr kvs
                | JNull \<Rightarrow> Inr []
                | _ \<Rightarrow> Inl (''json: cannot unmarshal into Go value of type '' @
                             ''map[string]interface {}'')))"

subsection \<open>The Go language handle\<close>

text \<open>Modelled from the spec: the one element of \<open>SupportedLanguages\<close>, \<open>GoLanguage\<close>
  (internal/detector), whose source is not at hand. A directory is a Go project when it
  holds \<open>go.mod\<close>; \<open>Install\<close> writes the package file \<open>internal/logdog/logger.go\<close>, over
  an older one if there is one, and creates the output directory; \<open>GetLogPaths\<close> lists
  the \<open>.json\<close> files of the output directory \<open>logdog/logs\<close>, in the order in which the
  directory is read, and nothing when the directory is absent.\<close>

definition add_node :: "string \<Rightarrow> fnode \<Rightarrow> (string \<times> fnode) list \<Rightarrow> (string \<times> fnode) list" where
  "add_node p n nodes = (if map_of nodes p = None then nodes @ [(p, n)] else nodes)"

definition GoInstall :: "fsys \<Rightarrow> string \<Rightarrow> Config \<Rightarrow> error option \<times> fsys" where
  "GoInstall w p cfg =
     (case map_of (fs_nodes w) p of
        None \<Rightarrow> (Some (''mkdir '' @ Join0 [p, ''internal'']  @ '': no such file or directory''), w)
      | Some f \<Rightarrow>
          if \<not> f_isDir f then
            (Some (''mkdir '' @ Join0 [p, ''internal''] @ '': not a directory''), w)
          else if f_immutable f then
            (Some (''mkdir '' @ Join0 [p, ''internal''] @ '': permission denied''), w)
          else
            (let d = \<lparr>f_isDir = True, f_modTime = fs_clock w, f_lines = [],
                      f_immutable = False\<rparr>;
                 logger = Join0 [p, ''internal'', ''logdog'', ''logger.go''];
                 g = \<lparr>f_isDir = False, f_modTime = fs_clock w, f_lines = [''package logdog''],
                      f_immutable = False\<rparr>
             in (None,
                 w\<lparr>fs_nodes :=
                     add_node (Join0 [p, OutputDir cfg]) d
                       (add_node (Join0 [p, ''logdog'']) d
                          (add_node logger g
                             (add_node (Join0 [p, ''internal'', ''logdog'']) d
                                (add_node (Join0 [p, ''internal'']) d
                                   (filter (\<lambda>(q, h). q \<noteq> logger) (fs_nodes w))))))\<rparr>)))"

definition GoLanguage :: "fsys Language" where
  "GoLanguage =
     \<lparr>Name = ''Go'',
      Detect = (\<lambda>w p. map_of (fs_nodes w) (Join0 [p, ''go.mod'']) \<noteq> None),
      Install = GoInstall,
      GetLogPaths = (\<lambda>w p. map fst
                       (filter (\<lambda>(q, g). path_dir q = Join0 [p, ''logdog'', ''logs'']
                                          \<and> \<not> f_isDir g \<and> Ext0 q = ''.json'')
                          (fs_nodes w)))\<rparr>"

definition E0 :: "fsys env" where
  "E0 =
     \<lparr>SupportedLanguages = [GoLanguage],
      os_Getwd = fs_cwd,
      user_Current = fs_home,
      os_ReadDir = ReadDir0,
      filepath_Walk = Walk0,
      os_Stat = Stat0,
      os_Remove = Remove0,
      os_Open = Open0,
      time_Now = fs_clock,
      time_AddDate = AddDate0,
      time_Parse = Parse0,
      time_Format = Format0,
      json_Unmarshal = Unmarshal0,
      strings_TrimSpace = TrimSpace0,
      filepath_Join = Join0,
      filepath_Base = Base0,
      filepath_Ext = Ext0,
      lipgloss_Render = Render0,
      fmt_v = fmt_v0\<rparr>"

subsection \<open>Two worlds\<close>

text \<open>A user with one project in the global log directory, \<open>svc\<close>, which holds two log
  files, and a working directory that holds a Go project without any log: \<open>world_go\<close>.
  The same without \<open>go.mod\<close>, so that no language is detected: \<open>world_plain\<close>.\<close>

definition at_time :: "int \<Rightarrow> Time" where
  "at_time s = \<lparr>unixNano = s * nanos_per_second, zoneOffset = 0\<rparr>"

definition a_dir :: fnode where
  "a_dir = \<lparr>f_isDir = True, f_modTime = at_time 1705000000, f_lines = [], f_immutable = False\<rparr>"

definition a_file :: "int \<Rightarrow> string list \<Rightarrow> fnode" where
  "a_file s ls = \<lparr>f_isDir = False, f_modTime = at_time s, f_lines = ls, f_immutable = False\<rparr>"

definition log14 :: string where
  "log14 = ''/home/u/logdog/svc/logdog-2024-01-14.json''"

definition log15 :: string where
  "log15 = ''/home/u/logdog/svc/logdog-2024-01-15.json''"

definition world_plain :: fsys where
  "world_plain =
     \<lparr>fs_cwd = ''/work/app'',
      fs_home = Inr ''/home/u'',
      fs_nodes =
        [(''/home/u'', a_dir),
         (''/home/u/logdog'', a_dir),
         (''/home/u/logdog/svc'', a_dir),
         (log14, a_file 1705240000 [''  not json  '', '''', ''{}'']),
         (log15, a_file 1705329045 [sample_line]),
         (''/work'', a_dir),
         (''/work/app'', a_dir)],
      fs_clock = at_time 1705400000\<rparr>"

definition world_go :: fsys where
  "world_go =
     world_plain\<lparr>fs_nodes := fs_nodes world_plain @ [(''/work/app/go.mod'', a_file 1705000000 [])]\<rparr>"

text \<open>A directory of log files of different ages, for the retention filter: modified one
  day, ten days, thirty days and exactly seven days before the current time. The model
  lists them together with a file that is no longer there.\<close>

definition ages_now :: int where
  "ages_now = 1705400000"

definition world_ages :: fsys where
  "world_ages =
     \<lparr>fs_cwd = ''/'',
      fs_home = Inl ''user: Current requires cgo'',
      fs_nodes =
        [(''/logs'', a_dir),
         (''/logs/d1.json'', a_file (ages_now - 1 * 86400) []),
         (''/logs/d10.json'', a_file (ages_now - 10 * 86400) []),
         (''/logs/d30.json'', a_file (ages_now - 30 * 86400) []),
         (''/logs/d7.json'', a_file (ages_now - 7 * 86400) [])],
      fs_clock = at_time ages_now\<rparr>"

definition ages_model :: "fsys Model" where
  "ages_model =
     (NewModel E0 world_ages)
       \<lparr>screen := screenLogs,
        logFiles := [''/logs/d1.json'', ''/logs/d10.json'', ''/logs/gone.json'',
                     ''/logs/d30.json'', ''/logs/d7.json'']\<rparr>"

text \<open>\<open>world_plain\<close> with other lines in the first log file of \<open>svc\<close>: the line \<open>null\<close>,
  then a line that is no JSON.\<close>

definition world_null :: fsys where
  "world_null =
     world_plain
       \<lparr>fs_nodes :=
          map (\<lambda>(p, f). if p = log14 then (p, f\<lparr>f_lines := [''null'', ''  not json  '']\<rparr>)
                         else (p, f))
            (fs_nodes world_plain)\<rparr>"

definition keys :: "string list \<Rightarrow> msg list" where
  "keys ks = map KeyMsg ks"

subsection \<open>Notions used by the properties\<close>

text \<open>The state and the world after a list of keys, from the state that \<open>NewModel\<close>
  builds in the world given.\<close>

definition state_after :: "'w env \<Rightarrow> 'w \<Rightarrow> string list \<Rightarrow> 'w Model" where
  "state_after E w ks = fst (the (run E w (NewModel E w) (keys ks)))"

definition world_after :: "'w env \<Rightarrow> 'w \<Rightarrow> string list \<Rightarrow> 'w" where
  "world_after E w ks = snd (the (run E w (NewModel E w) (keys ks)))"

text \<open>The bound on the cursor in the words of the specification: 4 on Main, the last
  index of the list on LogList and GlobalProjectSelect, 0 on the other screens and when
  the list is empty.\<close>

definition spec_maxCursor :: "'w Model \<Rightarrow> int" where
  "spec_maxCursor m =
     (case screen m of
        screenMain \<Rightarrow> 4
      | screenLogs \<Rightarrow> (if logFiles m = [] then 0 else len (logFiles m) - 1)
      | screenGlobalProjects \<Rightarrow> (if globalProjects m = [] then 0 else len (globalProjects m) - 1)
      | _ \<Rightarrow> 0)"

text \<open>A call that returns, as opposed to one that panics.\<close>

definition returns :: "'a option \<Rightarrow> bool" where
  "returns r = (case r of None \<Rightarrow> False | Some x \<Rightarrow> True)"

text \<open>The retention threshold after a message, in the words of the specification: \<open>+\<close>
  and \<open>=\<close> on the Settings screen add one below 365, \<open>-\<close> and \<open>_\<close> take one off above 1,
  nothing else changes it.\<close>

definition retention_step :: "'w Model \<Rightarrow> msg \<Rightarrow> int" where
  "retention_step m x =
     (if screen m = screenSettings \<and> (x = KeyMsg ''+'' \<or> x = KeyMsg ''='') \<and>
         retentionDays m < 365
      then retentionDays m + 1
      else if screen m = screenSettings \<and> (x = KeyMsg ''-'' \<or> x = KeyMsg ''_'') \<and>
              retentionDays m > 1
      then retentionDays m - 1
      else retentionDays m)"

text \<open>The index kept in \<open>deleteFileIndex\<close> after a message: \<open>d\<close>, where it opens the
  delete prompt, stores the cursor; nothing else writes the field.\<close>

definition deleteFileIndex_step :: "'w Model \<Rightarrow> msg \<Rightarrow> int" where
  "deleteFileIndex_step m x =
     (if x = KeyMsg ''d'' \<and> screen m = screenLogs \<and> len (logFiles m) > 0 \<and>
         \<not> confirmingDelete m \<and> \<not> confirmingClear m \<and> cursor m < len (logFiles m)
      then cursor m
      else deleteFileIndex m)"

text \<open>What every reachable state satisfies.\<close>

definition invariant :: "'w Model \<Rightarrow> bool" where
  "invariant m =
     (0 \<le> cursor m \<and> 0 \<le> deleteFileIndex m \<and>
      \<not> (confirmingDelete m \<and> confirmingClear m) \<and>
      1 \<le> retentionDays m \<and> retentionDays m \<le> 365 \<and>
      (confirming m \<longrightarrow> screen m = screenLogs))"

section \<open>Properties\<close>

subsection \<open>Evaluation of the example environment\<close>

lemma E0_fields:
  "SupportedLanguages E0 = [GoLanguage]"
  "os_Getwd E0 = fs_cwd"
  "user_Current E0 = fs_home"
  "os_ReadDir E0 = ReadDir0"
  "filepath_Walk E0 = Walk0"
  "os_Stat E0 = Stat0"
  "os_Remove E0 = Remove0"
  "os_Open E0 = Open0"
  "time_Now E0 = fs_clock"
  "time_AddDate E0 = AddDate0"
  "time_Parse E0 = Parse0"
  "time_Format E0 = Format0"
  "json_Unmarshal E0 = Unmarshal0"
  "strings_TrimSpace E0 = TrimSpace0"
  "filepath_Join E0 = Join0"
  "filepath_Base E0 = Base0"
  "filepath_Ext E0 = Ext0"
  "lipgloss_Render E0 = Render0"
  "fmt_v E0 = fmt_v0"
  by (simp_all add: E0_def)

lemma GoLanguage_fields:
  "Name GoLanguage = ''Go''"
  "Detect GoLanguage w p = (map_of (fs_nodes w) (Join0 [p, ''go.mod'']) \<noteq> None)"
  "Install GoLanguage = GoInstall"
  "GetLogPaths GoLanguage w p =
     map fst (filter (\<lambda>(q, g). path_dir q = Join0 [p, ''logdog'', ''logs'']
                                \<and> \<not> f_isDir g \<and> Ext0 q = ''.json'') (fs_nodes w))"
  by (simp_all add: GoLanguage_def)


subsection \<open>The invariant\<close>

lemma pred_option_with_world [simp]:
  "pred_option P (with_world w r) = pred_option (\<lambda>(m, c). P (m, c, w)) r"
  by (cases r) (auto simp: with_world_def)

lemma case_up_inv:
  "invariant m \<Longrightarrow> pred_option (\<lambda>(m', c, w'). invariant m') (case_up w m)"
  by (simp add: case_up_def invariant_def confirming_def)

lemma case_down_inv:
  "invariant m \<Longrightarrow> pred_option (\<lambda>(m', c, w'). invariant m') (case_down w m)"
  by (simp add: case_down_def invariant_def confirming_def)

lemma case_enter_inv:
  "invariant m \<Longrightarrow> pred_option (\<lambda>(m', c, w'). invariant m') (case_enter E w m)"
  by (cases "screen m")
     (simp_all add: case_enter_def install_enter_def handleEnter_def invariant_def confirming_def
        Let_def split: option.split prod.split)

lemma case_v_inv:
  "invariant m \<Longrightarrow> pred_option (\<lambda>(m', c, w'). invariant m') (case_v E w m)"
  by (simp add: case_v_def handleViewLog_def viewLogContent_def invariant_def confirming_def
        split: option.split sum.split)

lemma case_d_inv:
  "invariant m \<Longrightarrow> pred_option (\<lambda>(m', c, w'). invariant m') (case_d E w m)"
  by (simp add: case_d_def handleDeleteLog_def invariant_def confirming_def
        split: option.split)

lemma case_c_inv:
  "invariant m \<Longrightarrow> pred_option (\<lambda>(m', c, w'). invariant m') (case_c E w m)"
  by (simp add: case_c_def handleClearOldLogs_def invariant_def confirming_def Let_def)

lemma case_y_inv:
  "invariant m \<Longrightarrow> pred_option (\<lambda>(m', c, w'). invariant m') (case_y E w m)"
  by (cases "language m")
     (simp_all add: case_y_def confirmDelete_def confirmClearOldLogs_def invariant_def
        confirming_def Let_def split: option.split prod.split)

lemma case_plus_inv:
  "invariant m \<Longrightarrow> pred_option (\<lambda>(m', c, w'). invariant m') (case_plus w m)"
  by (simp add: case_plus_def invariant_def confirming_def)

lemma case_minus_inv:
  "invariant m \<Longrightarrow> pred_option (\<lambda>(m', c, w'). invariant m') (case_minus w m)"
  by (simp add: case_minus_def invariant_def confirming_def)

lemma case_esc_inv:
  "invariant m \<Longrightarrow> pred_option (\<lambda>(m', c, w'). invariant m') (case_esc w m)"
  by (simp add: case_esc_def invariant_def confirming_def)

lemma case_default_inv:
  "invariant m \<Longrightarrow> pred_option (\<lambda>(m', c, w'). invariant m') (case_default w m)"
  by (simp add: case_default_def invariant_def confirming_def)

lemmas case_invs =
  case_up_inv case_down_inv case_enter_inv case_v_inv case_d_inv case_c_inv
  case_y_inv case_plus_inv case_minus_inv case_esc_inv case_default_inv

lemma Update_inv:
  "invariant m \<Longrightarrow> pred_option (\<lambda>(m', c, w'). invariant m') (Update E w m x)"
  by (cases x) (simp_all add: Update_def Update_key_def case_invs)

lemma invariant_NewModel: "invariant (NewModel E w)"
  by (simp add: invariant_def NewModel_def Let_def confirming_def)

lemma reachable_invariant: "reachable E w m \<Longrightarrow> invariant m"
proof (induction rule: reachable.induct)
  case (start w)
  show ?case by (rule invariant_NewModel)
next
  case (world w m w')
  then show ?case by simp
next
  case (update w m x m' c w')
  from Update_inv [OF update.IH, of E w x] update.hyps(2) show ?case by simp
qed

lemma run_reachable:
  "reachable E w m \<Longrightarrow> run E w m xs = Some (m', w') \<Longrightarrow> reachable E w' m'"
proof (induction xs arbitrary: w m)
  case Nil
  then show ?case by simp
next
  case (Cons x xs)
  then show ?case
    by (auto split: option.splits prod.splits if_splits intro: reachable.update)
qed

text \<open>No index of a reachable state is out of range where the source reads a slice:
  \<open>Update\<close> does not panic.\<close>

lemma case_enter_no_panic: "0 \<le> cursor m \<Longrightarrow> case_enter E w m \<noteq> None"
  by (cases "screen m")
     (simp_all add: case_enter_def with_world_def handleEnter_def index_def Let_def
        del: not_None_eq)

lemma case_v_no_panic: "0 \<le> cursor m \<Longrightarrow> case_v E w m \<noteq> None"
  by (simp add: case_v_def with_world_def handleViewLog_def viewLogContent_def index_def
        del: not_None_eq split: sum.split)

lemma case_d_no_panic: "0 \<le> cursor m \<Longrightarrow> case_d E w m \<noteq> None"
  by (simp add: case_d_def with_world_def handleDeleteLog_def index_def del: not_None_eq)

lemma case_y_no_panic: "0 \<le> deleteFileIndex m \<Longrightarrow> case_y E w m \<noteq> None"
  by (simp add: case_y_def confirmDelete_def index_def Let_def del: not_None_eq
        split: prod.split option.split)

lemma Update_key_no_panic:
  "0 \<le> cursor m \<Longrightarrow> 0 \<le> deleteFileIndex m \<Longrightarrow> Update_key E w m k \<noteq> None"
  by (simp add: Update_key_def case_enter_no_panic case_v_no_panic case_d_no_panic
        case_y_no_panic case_up_def case_down_def case_c_def case_plus_def case_minus_def
        case_esc_def case_default_def with_world_def del: not_None_eq)

lemma reachable_no_panic: "reachable E w m \<Longrightarrow> Update E w m x \<noteq> None"
  using reachable_invariant [of E w m] Update_key_no_panic [of m E w]
  by (cases x) (simp_all add: Update_def invariant_def del: not_None_eq)

lemma Update_key_cases:
  assumes "k = ''q'' \<or> k = ''ctrl+c'' \<Longrightarrow> P (Some (m, Quit, w))"
    and "k = ''up'' \<or> k = ''k'' \<Longrightarrow> P (case_up w m)"
    and "k = ''down'' \<or> k = ''j'' \<Longrightarrow> P (case_down w m)"
    and "k = ''enter'' \<Longrightarrow> P (case_enter E w m)"
    and "k = ''v'' \<Longrightarrow> P (case_v E w m)"
    and "k = ''d'' \<Longrightarrow> P (case_d E w m)"
    and "k = ''c'' \<Longrightarrow> P (case_c E w m)"
    and "k = ''y'' \<Longrightarrow> P (case_y E w m)"
    and "k = ''+'' \<or> k = ''='' \<Longrightarrow> P (case_plus w m)"
    and "k = ''-'' \<or> k = ''_'' \<Longrightarrow> P (case_minus w m)"
    and "k = ''esc'' \<Longrightarrow> P (case_esc w m)"
    and "k \<notin> set [''q'', ''ctrl+c'', ''up'', ''k'', ''down'', ''j'', ''enter'', ''v'', ''d'',
                      ''c'', ''y'', ''+'', ''='', ''-'', ''_'', ''esc''] \<Longrightarrow> P (case_default w m)"
  shows "P (Update_key E w m k)"
  using assms by (simp add: Update_key_def)

lemma pred_optionD: "pred_option P r \<Longrightarrow> r = Some x \<Longrightarrow> P x"
  by simp

lemma reachable_after:
  "returns (run E w (NewModel E w) (keys ks)) \<Longrightarrow>
   reachable E (world_after E w ks) (state_after E w ks)"
  by (cases "run E w (NewModel E w) (keys ks)")
     (auto simp: returns_def world_after_def state_after_def
           intro: run_reachable [OF reachable.start])

subsection \<open>Confirmations exclude each other\<close>

text \<open>C9. In every state that the program reaches from its initial state, by any sequence
  of messages and whatever the outside world does in between, \<open>confirmingDelete\<close> and
  \<open>confirmingClear\<close> are not both true.\<close>

theorem confirmations_exclusive:
  "reachable E w m \<Longrightarrow> \<not> (confirmingDelete m \<and> confirmingClear m)"
  using reachable_invariant [of E w m] by (simp add: invariant_def)

theorem confirmations_exclusive_witness:
  "reachable E0 (world_after E0 world_plain [''down'', ''down'', ''enter'', ''enter'', ''d''])
     (state_after E0 world_plain [''down'', ''down'', ''enter'', ''enter'', ''d'']) \<and>
   confirmingDelete (state_after E0 world_plain [''down'', ''down'', ''enter'', ''enter'', ''d'']) \<and>
   \<not> confirmingClear (state_after E0 world_plain [''down'', ''down'', ''enter'', ''enter'', ''d''])"
proof -
  let ?ks = "[''down'', ''down'', ''enter'', ''enter'', ''d'']"
  have "returns (run E0 world_plain (NewModel E0 world_plain) (keys ?ks))"
    by code_simp
  then have r: "reachable E0 (world_after E0 world_plain ?ks) (state_after E0 world_plain ?ks)"
    by (rule reachable_after)
  have d: "confirmingDelete (state_after E0 world_plain ?ks)"
    by code_simp
  from confirmations_exclusive [OF r] r d show ?thesis
    by simp
qed

subsection \<open>The retention threshold\<close>

lemma case_up_ret:
  "pred_option (\<lambda>(m', c, w'). retentionDays m' = retentionDays m) (case_up w m)"
  by (simp add: case_up_def)

lemma case_down_ret:
  "pred_option (\<lambda>(m', c, w'). retentionDays m' = retentionDays m) (case_down w m)"
  by (simp add: case_down_def)

lemma case_enter_ret:
  "pred_option (\<lambda>(m', c, w'). retentionDays m' = retentionDays m) (case_enter E w m)"
  by (cases "screen m")
     (simp_all add: case_enter_def install_enter_def handleEnter_def Let_def
        split: option.split prod.split)

lemma case_v_ret:
  "pred_option (\<lambda>(m', c, w'). retentionDays m' = retentionDays m) (case_v E w m)"
  by (simp add: case_v_def handleViewLog_def viewLogContent_def split: option.split sum.split)

lemma case_d_ret:
  "pred_option (\<lambda>(m', c, w'). retentionDays m' = retentionDays m) (case_d E w m)"
  by (simp add: case_d_def handleDeleteLog_def split: option.split)

lemma case_c_ret:
  "pred_option (\<lambda>(m', c, w'). retentionDays m' = retentionDays m) (case_c E w m)"
  by (simp add: case_c_def handleClearOldLogs_def Let_def)

lemma case_y_ret:
  "pred_option (\<lambda>(m', c, w'). retentionDays m' = retentionDays m) (case_y E w m)"
  by (cases "language m")
     (simp_all add: case_y_def confirmDelete_def confirmClearOldLogs_def Let_def
        split: option.split prod.split)

lemma case_esc_ret:
  "pred_option (\<lambda>(m', c, w'). retentionDays m' = retentionDays m) (case_esc w m)"
  by (simp add: case_esc_def)

lemma case_default_ret:
  "pred_option (\<lambda>(m', c, w'). retentionDays m' = retentionDays m) (case_default w m)"
  by (simp add: case_default_def)

lemma case_plus_ret:
  "invariant m \<Longrightarrow>
   pred_option (\<lambda>(m', c, w'). retentionDays m' =
      (if screen m = screenSettings \<and> retentionDays m < 365
       then retentionDays m + 1 else retentionDays m)) (case_plus w m)"
  by (auto simp: case_plus_def invariant_def confirming_def)

lemma case_minus_ret:
  "invariant m \<Longrightarrow>
   pred_option (\<lambda>(m', c, w'). retentionDays m' =
      (if screen m = screenSettings \<and> retentionDays m > 1
       then retentionDays m - 1 else retentionDays m)) (case_minus w m)"
  by (auto simp: case_minus_def invariant_def confirming_def)

lemma retention_step_other:
  "k \<noteq> ''+'' \<Longrightarrow> k \<noteq> ''='' \<Longrightarrow> k \<noteq> ''-'' \<Longrightarrow> k \<noteq> ''_'' \<Longrightarrow>
   retention_step m (KeyMsg k) = retentionDays m"
  by (simp add: retention_step_def)

lemma retention_step_plus:
  "k = ''+'' \<or> k = ''='' \<Longrightarrow>
   retention_step m (KeyMsg k) =
     (if screen m = screenSettings \<and> retentionDays m < 365
      then retentionDays m + 1 else retentionDays m)"
  by (auto simp: retention_step_def)

lemma retention_step_minus:
  "k = ''-'' \<or> k = ''_'' \<Longrightarrow>
   retention_step m (KeyMsg k) =
     (if screen m = screenSettings \<and> retentionDays m > 1
      then retentionDays m - 1 else retentionDays m)"
  by (auto simp: retention_step_def)

lemma Update_key_retention:
  assumes inv: "invariant m"
  shows "pred_option (\<lambda>(m', c, w'). retentionDays m' = retention_step m (KeyMsg k))
           (Update_key E w m k)"
proof (rule Update_key_cases
    [where P = "pred_option (\<lambda>(m', c, w'). retentionDays m' = retention_step m (KeyMsg k))"])
  assume "k = ''q'' \<or> k = ''ctrl+c''"
  then have "retention_step m (KeyMsg k) = retentionDays m"
    by (intro retention_step_other) auto
  then show "pred_option (\<lambda>(m', c, w'). retentionDays m' = retention_step m (KeyMsg k))
               (Some (m, Quit, w))"
    by simp
next
  assume "k = ''up'' \<or> k = ''k''"
  then have "retention_step m (KeyMsg k) = retentionDays m"
    by (intro retention_step_other) auto
  then show "pred_option (\<lambda>(m', c, w'). retentionDays m' = retention_step m (KeyMsg k))
               (case_up w m)"
    by (simp only: case_up_ret)
next
  assume "k = ''down'' \<or> k = ''j''"
  then have "retention_step m (KeyMsg k) = retentionDays m"
    by (intro retention_step_other) auto
  then show "pred_option (\<lambda>(m', c, w'). retentionDays m' = retention_step m (KeyMsg k))
               (case_down w m)"
    by (simp only: case_down_ret)
next
  assume "k = ''enter''"
  then have "retention_step m (KeyMsg k) = retentionDays m"
    by (intro retention_step_other) auto
  then show "pred_option (\<lambda>(m', c, w'). retentionDays m' = retention_step m (KeyMsg k))
               (case_enter E w m)"
    by (simp only: case_enter_ret)
next
  assume "k = ''v''"
  then have "retention_step m (KeyMsg k) = retentionDays m"
    by (intro retention_step_other) auto
  then show "pred_option (\<lambda>(m', c, w'). retentionDays m' = retention_step m (KeyMsg k))
               (case_v E w m)"
    by (simp only: case_v_ret)
next
  assume "k = ''d''"
  then have "retention_step m (KeyMsg k) = retentionDays m"
    by (intro retention_step_other) auto
  then show "pred_option (\<lambda>(m', c, w'). retentionDays m' = retention_step m (KeyMsg k))
               (case_d E w m)"
    by (simp only: case_d_ret)
next
  assume "k = ''c''"
  then have "retention_step m (KeyMsg k) = retentionDays m"
    by (intro retention_step_other) auto
  then show "pred_option (\<lambda>(m', c, w'). retentionDays m' = retention_step m (KeyMsg k))
               (case_c E w m)"
    by (simp only: case_c_ret)
next
  assume "k = ''y''"
  then have "retention_step m (KeyMsg k) = retentionDays m"
    by (intro retention_step_other) auto
  then show "pred_option (\<lambda>(m', c, w'). retentionDays m' = retention_step m (KeyMsg k))
               (case_y E w m)"
    by (simp only: case_y_ret)
next
  assume "k = ''+'' \<or> k = ''=''"
  then show "pred_option (\<lambda>(m', c, w'). retentionDays m' = retention_step m (KeyMsg k))
               (case_plus w m)"
    by (simp only: retention_step_plus case_plus_ret [OF inv])
next
  assume "k = ''-'' \<or> k = ''_''"
  then show "pred_option (\<lambda>(m', c, w'). retentionDays m' = retention_step m (KeyMsg k))
               (case_minus w m)"
    by (simp only: retention_step_minus case_minus_ret [OF inv])
next
  assume "k = ''esc''"
  then have "retention_step m (KeyMsg k) = retentionDays m"
    by (intro retention_step_other) auto
  then show "pred_option (\<lambda>(m', c, w'). retentionDays m' = retention_step m (KeyMsg k))
               (case_esc w m)"
    by (simp only: case_esc_ret)
next
  assume "k \<notin> set [''q'', ''ctrl+c'', ''up'', ''k'', ''down'', ''j'', ''enter'', ''v'', ''d'',
                      ''c'', ''y'', ''+'', ''='', ''-'', ''_'', ''esc'']"
  then have "retention_step m (KeyMsg k) = retentionDays m"
    by (intro retention_step_other) auto
  then show "pred_option (\<lambda>(m', c, w'). retentionDays m' = retention_step m (KeyMsg k))
               (case_default w m)"
    by (simp only: case_default_ret)
qed

text \<open>C6. The retention threshold is 7 in the initial state and stays within 1 and 365 in
  every reachable state; a message changes it only as the transition table says: \<open>+\<close> or
  \<open>=\<close> on the Settings screen adds one when it is below 365, \<open>-\<close> or \<open>_\<close> takes one off when
  it is above 1, and every other message leaves it as it is.\<close>

theorem retention_within_bounds:
  assumes "reachable E w m"
  shows "retentionDays (NewModel E w0) = 7 \<and>
         1 \<le> retentionDays m \<and> retentionDays m \<le> 365 \<and>
         (\<forall>x m' c w'. Update E w m x = Some (m', c, w') \<longrightarrow>
                        retentionDays m' = retention_step m x)"
proof -
  have inv: "invariant m"
    using assms by (rule reachable_invariant)
  have "retentionDays m' = retention_step m x" if "Update E w m x = Some (m', c, w')"
    for x m' c w'
  proof (cases x)
    case (KeyMsg k)
    with that Update_key_retention [OF inv, of k E w] show ?thesis
      by (simp add: Update_def)
  next
    case OtherMsg
    with that show ?thesis
      by (simp add: Update_def retention_step_def)
  qed
  moreover have "retentionDays (NewModel E w0) = 7"
    by (simp add: NewModel_def Let_def)
  ultimately show ?thesis
    using inv by (simp add: invariant_def)
qed

theorem retention_within_bounds_witness:
  "reachable E0 (world_after E0 world_plain [''down'', ''down'', ''down'', ''enter'', ''+''])
     (state_after E0 world_plain [''down'', ''down'', ''down'', ''enter'', ''+'']) \<and>
   retentionDays (NewModel E0 world_plain) = 7 \<and>
   retentionDays (state_after E0 world_plain [''down'', ''down'', ''down'', ''enter'', ''+'']) = 8 \<and>
   retention_step (state_after E0 world_plain [''down'', ''down'', ''down'', ''enter'', ''+''])
     (KeyMsg ''-'') = 7"
proof -
  let ?ks = "[''down'', ''down'', ''down'', ''enter'', ''+'']"
  have "returns (run E0 world_plain (NewModel E0 world_plain) (keys ?ks))"
    by code_simp
  then have r: "reachable E0 (world_after E0 world_plain ?ks) (state_after E0 world_plain ?ks)"
    by (rule reachable_after)
  have a: "retentionDays (state_after E0 world_plain ?ks) = 8"
    by code_simp
  have b: "retention_step (state_after E0 world_plain ?ks) (KeyMsg ''-'') = 7"
    by code_simp
  from retention_within_bounds [OF r, of world_plain] r a b show ?thesis
    by simp
qed

subsection \<open>Keys while a confirmation is pending\<close>

text \<open>What the switch of \<open>Update\<close> does with a key other than \<open>y\<close> while \<open>confirmingDelete\<close> or
  \<open>confirmingClear\<close> is true: the quit keys return \<open>tea.Quit\<close>, a key with a guarded case of
  its own finds its guard false and falls to \<open>return m, nil\<close>, and esc and the default
  case clear both flags and the message.\<close>

lemma Update_pending_key:
  assumes "confirmingDelete m \<or> confirmingClear m" and "k \<noteq> ''y''"
  shows "Update E w m (KeyMsg k) =
           (if k \<in> set [''q'', ''ctrl+c''] then Some (m, Quit, w)
            else if k \<in> set [''up'', ''k'', ''down'', ''j'', ''enter'', ''v'', ''d'', ''c'',
                              ''+'', ''='', ''-'', ''_'']
            then Some (m, NoCmd, w)
            else Some (m\<lparr>confirmingDelete := False, confirmingClear := False,
                          message := ''''\<rparr>, NoCmd, w))"
proof -
  let ?rhs = "if k \<in> set [''q'', ''ctrl+c''] then Some (m, Quit, w)
              else if k \<in> set [''up'', ''k'', ''down'', ''j'', ''enter'', ''v'', ''d'', ''c'',
                                ''+'', ''='', ''-'', ''_'']
              then Some (m, NoCmd, w)
              else Some (m\<lparr>confirmingDelete := False, confirmingClear := False,
                            message := ''''\<rparr>, NoCmd, w)"
  have "Update_key E w m k = ?rhs"
  proof (rule Update_key_cases [where P = "\<lambda>r. r = ?rhs"])
    show "Some (m, Quit, w) = ?rhs" if "k = ''q'' \<or> k = ''ctrl+c''"
      using that by auto
    show "case_up w m = ?rhs" if "k = ''up'' \<or> k = ''k''"
      using that assms(1) by (auto simp: case_up_def)
    show "case_down w m = ?rhs" if "k = ''down'' \<or> k = ''j''"
      using that assms(1) by (auto simp: case_down_def)
    show "case_enter E w m = ?rhs" if "k = ''enter''"
      using that assms(1) by (auto simp: case_enter_def)
    show "case_v E w m = ?rhs" if "k = ''v''"
      using that assms(1) by (auto simp: case_v_def)
    show "case_d E w m = ?rhs" if "k = ''d''"
      using that assms(1) by (auto simp: case_d_def)
    show "case_c E w m = ?rhs" if "k = ''c''"
      using that assms(1) by (auto simp: case_c_def)
    show "case_y E w m = ?rhs" if "k = ''y''"
      using that assms(2) by simp
    show "case_plus w m = ?rhs" if "k = ''+'' \<or> k = ''=''"
      using that assms(1) by (auto simp: case_plus_def)
    show "case_minus w m = ?rhs" if "k = ''-'' \<or> k = ''_''"
      using that assms(1) by (auto simp: case_minus_def)
    show "case_esc w m = ?rhs" if "k = ''esc''"
      using that assms(1) by (auto simp: case_esc_def)
    show "case_default w m = ?rhs"
      if "k \<notin> set [''q'', ''ctrl+c'', ''up'', ''k'', ''down'', ''j'', ''enter'', ''v'', ''d'',
                       ''c'', ''y'', ''+'', ''='', ''-'', ''_'', ''esc'']"
      using that assms(1) by (auto simp: case_default_def)
  qed
  then show ?thesis
    by (simp add: Update_def)
qed

text \<open>C2, amended. While \<open>confirmingDelete\<close> or \<open>confirmingClear\<close> is true, a key other than
  \<open>y\<close> never changes the outside world and leaves \<open>screen\<close>, \<open>cursor\<close> and \<open>logFiles\<close> as
  they are. The navigation keys up, k, down and j are ignored: the state stays as it is,
  the pending confirmation included. Esc and every key without a case of its own cancel:
  they clear both flags and the message and change nothing else. The quit keys q and
  ctrl+c return \<open>tea.Quit\<close>. Whether enter, v, d, c, +, =, - and _ cancel is left open
  here: the prompt of the program announces that any other key cancels, and the code
  keeps the confirmation pending on them.\<close>

theorem pending_confirmation_other_key:
  assumes "confirmingDelete m \<or> confirmingClear m" and "k \<noteq> ''y''"
  shows "\<exists>m' c. Update E w m (KeyMsg k) = Some (m', c, w) \<and>
           screen m' = screen m \<and> cursor m' = cursor m \<and> logFiles m' = logFiles m \<and>
           (k \<in> set [''up'', ''k'', ''down'', ''j''] \<longrightarrow> m' = m \<and> c = NoCmd) \<and>
           (k \<in> set [''q'', ''ctrl+c''] \<longrightarrow> c = Quit) \<and>
           (k \<notin> set [''q'', ''ctrl+c'', ''up'', ''k'', ''down'', ''j'', ''enter'', ''v'', ''d'',
                        ''c'', ''+'', ''='', ''-'', ''_''] \<longrightarrow>
              m' = m\<lparr>confirmingDelete := False, confirmingClear := False, message := ''''\<rparr> \<and>
              c = NoCmd)"
proof (cases "k \<in> set [''q'', ''ctrl+c'']")
  case True
  with Update_pending_key [OF assms, of E w]
  have "Update E w m (KeyMsg k) = Some (m, Quit, w)"
    by simp
  with True show ?thesis
    by auto
next
  case notquit: False
  show ?thesis
  proof (cases "k \<in> set [''up'', ''k'', ''down'', ''j'', ''enter'', ''v'', ''d'', ''c'',
                          ''+'', ''='', ''-'', ''_'']")
    case True
    with notquit Update_pending_key [OF assms, of E w]
    have "Update E w m (KeyMsg k) = Some (m, NoCmd, w)"
      by simp
    with True notquit show ?thesis
      by auto
  next
    case False
    with notquit Update_pending_key [OF assms, of E w]
    have "Update E w m (KeyMsg k) =
            Some (m\<lparr>confirmingDelete := False, confirmingClear := False, message := ''''\<rparr>,
                  NoCmd, w)"
      by simp
    with False notquit show ?thesis
      by auto
  qed
qed

theorem pending_confirmation_other_key_witness:
  "(confirmingDelete (state_after E0 world_plain [''down'', ''down'', ''enter'', ''enter'', ''d''])
      \<or> confirmingClear (state_after E0 world_plain [''down'', ''down'', ''enter'', ''enter'', ''d'']))
   \<and> ''x'' \<noteq> ''y''
   \<and> (\<exists>m' c. Update E0 world_plain
        (state_after E0 world_plain [''down'', ''down'', ''enter'', ''enter'', ''d''])
        (KeyMsg ''x'') = Some (m', c, world_plain) \<and> c = NoCmd \<and>
        m' = (state_after E0 world_plain [''down'', ''down'', ''enter'', ''enter'', ''d''])
               \<lparr>confirmingDelete := False, confirmingClear := False, message := ''''\<rparr>)"
proof -
  let ?m = "state_after E0 world_plain [''down'', ''down'', ''enter'', ''enter'', ''d'']"
  have d: "confirmingDelete ?m"
    by code_simp
  then have p: "confirmingDelete ?m \<or> confirmingClear ?m"
    by simp
  have n: "''x'' \<noteq> ''y''"
    by simp
  from pending_confirmation_other_key [OF p n, of E0 world_plain] p show ?thesis
    by simp
qed

text \<open>C2 as stated fails: the claim has every key other than \<open>y\<close> clear the pending
  confirmation, up among them. After \<open>d\<close> on the list of the project \<open>svc\<close> the delete is
  pending, and it still is after \<open>up\<close>.\<close>

theorem pending_confirmation_up_counterexample:
  "confirmingDelete (state_after E0 world_plain [''down'', ''down'', ''enter'', ''enter'', ''d''])
   \<and> confirmingDelete
       (state_after E0 world_plain [''down'', ''down'', ''enter'', ''enter'', ''d'', ''up''])"
  by code_simp

subsection \<open>Escape\<close>

text \<open>C4, as the code has it. On a screen other than Main, esc leaves the outside world
  alone and always ends with both confirmation flags false and an empty message. When no
  confirmation is pending it also returns to Main, with cursor 0 and with \<open>logContent\<close>
  and \<open>selectedProject\<close> empty. When a confirmation is pending it only cancels it: screen,
  cursor, \<open>logContent\<close> and \<open>selectedProject\<close> stay as they are.\<close>

theorem esc_effect:
  assumes "screen m \<noteq> screenMain"
  shows "\<exists>m'. Update E w m (KeyMsg ''esc'') = Some (m', NoCmd, w) \<and>
              \<not> confirmingDelete m' \<and> \<not> confirmingClear m' \<and> message m' = '''' \<and>
              (if confirmingDelete m \<or> confirmingClear m
               then screen m' = screen m \<and> cursor m' = cursor m \<and>
                    logContent m' = logContent m \<and> selectedProject m' = selectedProject m
               else screen m' = screenMain \<and> cursor m' = 0 \<and>
                    logContent m' = '''' \<and> selectedProject m' = '''')"
  by (simp add: Update_def Update_key_def case_esc_def)

theorem esc_effect_witness:
  "screen (state_after E0 world_plain
             [''down'', ''down'', ''enter'', ''enter'', ''down'', ''v'']) \<noteq> screenMain \<and>
   screen (state_after E0 world_plain
             [''down'', ''down'', ''enter'', ''enter'', ''down'', ''v'', ''esc'']) = screenMain \<and>
   logContent (state_after E0 world_plain
             [''down'', ''down'', ''enter'', ''enter'', ''down'', ''v'', ''esc'']) = '''' \<and>
   (\<exists>m'. Update E0 world_plain
            (state_after E0 world_plain [''down'', ''down'', ''enter'', ''enter'', ''down'', ''v''])
            (KeyMsg ''esc'') = Some (m', NoCmd, world_plain) \<and> screen m' = screenMain)"
proof -
  let ?m = "state_after E0 world_plain [''down'', ''down'', ''enter'', ''enter'', ''down'', ''v'']"
  have s: "screen ?m \<noteq> screenMain"
    by code_simp
  have c: "\<not> (confirmingDelete ?m \<or> confirmingClear ?m)"
    by code_simp
  have a: "screen (state_after E0 world_plain
             [''down'', ''down'', ''enter'', ''enter'', ''down'', ''v'', ''esc'']) = screenMain"
    by code_simp
  have b: "logContent (state_after E0 world_plain
             [''down'', ''down'', ''enter'', ''enter'', ''down'', ''v'', ''esc'']) = ''''"
    by code_simp
  from esc_effect [OF s, of E0 world_plain] c s a b show ?thesis
    by auto
qed

text \<open>C4 as stated fails when a confirmation is pending: after \<open>d\<close> on the list of the
  project \<open>svc\<close>, with the cursor on the second file, esc leaves the program on the list,
  the cursor on the second file and the project selected.\<close>

theorem esc_pending_counterexample:
  "screen (state_after E0 world_plain
             [''down'', ''down'', ''enter'', ''enter'', ''down'', ''d'']) = screenLogs \<and>
   confirmingDelete (state_after E0 world_plain
             [''down'', ''down'', ''enter'', ''enter'', ''down'', ''d'']) \<and>
   screen (state_after E0 world_plain
             [''down'', ''down'', ''enter'', ''enter'', ''down'', ''d'', ''esc'']) = screenLogs \<and>
   cursor (state_after E0 world_plain
             [''down'', ''down'', ''enter'', ''enter'', ''down'', ''d'', ''esc'']) = 1 \<and>
   selectedProject (state_after E0 world_plain
             [''down'', ''down'', ''enter'', ''enter'', ''down'', ''d'', ''esc'']) = ''svc''"
  by code_simp

subsection \<open>The retention filter\<close>

lemma oldLogsLoop_filter:
  "oldLogsLoop E w cutoffDate files oldLogs =
     oldLogs @ filter (\<lambda>p. case os_Stat E w p of
                              Inl err \<Rightarrow> False
                            | Inr modTime \<Rightarrow> unixNano modTime < unixNano cutoffDate) files"
  by (induction files arbitrary: oldLogs) (simp_all add: time_Before_def split: sum.split)

text \<open>C5. \<open>handleClearOldLogs\<close> selects exactly the files of \<open>logFiles\<close>, in their order,
  whose stat call succeeds with a modification time strictly before the cutoff, which is
  the current time moved back by \<open>retentionDays\<close> days; a file whose stat call fails is
  not selected. It asks for confirmation, naming the number of files selected, when that
  selection is not empty, and only reports when it is.\<close>

theorem handleClearOldLogs_selection:
  "handleClearOldLogs_oldLogs E w m =
     filter (\<lambda>p. case os_Stat E w p of
                    Inl err \<Rightarrow> False
                  | Inr modTime \<Rightarrow>
                      unixNano modTime <
                      unixNano (time_AddDate E (time_Now E w) 0 0 (- retentionDays m)))
       (logFiles m) \<and>
   handleClearOldLogs E w m =
     (if handleClearOldLogs_oldLogs E w m = [] then
        (m\<lparr>message := ''No log files older than '' @ itoa (retentionDays m) @
                        '' days found''\<rparr>, NoCmd)
      else
        (m\<lparr>message := ''Clear '' @ itoa (len (handleClearOldLogs_oldLogs E w m)) @
                        '' log files older than '' @ itoa (retentionDays m) @
                        '' days? Press 'y' to confirm, any other key to cancel'',
           confirmingClear := True\<rparr>, NoCmd))"
  by (simp add: handleClearOldLogs_oldLogs_def handleClearOldLogs_def oldLogsLoop_filter
        Let_def)

theorem handleClearOldLogs_selection_witness:
  "handleClearOldLogs_oldLogs E0 world_ages ages_model = [''/logs/d10.json'', ''/logs/d30.json'']
   \<and> message (fst (handleClearOldLogs E0 world_ages ages_model)) =
       ''Clear 2 log files older than 7 days? Press 'y' to confirm, any other key to cancel''
   \<and> confirmingClear (fst (handleClearOldLogs E0 world_ages ages_model))
   \<and> isl (os_Stat E0 world_ages ''/logs/gone.json'')"
proof -
  have f: "filter (\<lambda>p. case os_Stat E0 world_ages p of
                    Inl err \<Rightarrow> False
                  | Inr modTime \<Rightarrow>
                      unixNano modTime <
                      unixNano (time_AddDate E0 (time_Now E0 world_ages) 0 0
                                  (- retentionDays ages_model)))
             (logFiles ages_model) = [''/logs/d10.json'', ''/logs/d30.json'']"
    by code_simp
  have g: "isl (os_Stat E0 world_ages ''/logs/gone.json'')"
    by code_simp
  have i: "itoa (retentionDays ages_model) = ''7''" "itoa 2 = ''2''"
    by code_simp+
  from handleClearOldLogs_selection [of E0 world_ages ages_model] f g i show ?thesis
    by simp
qed

subsection \<open>Formatting a record\<close>

text \<open>C7. For the record with timestamp \<open>2024-01-15T14:30:45Z\<close>, level \<open>INFO\<close>, message
  \<open>hi\<close> and data \<open>{"x": 1}\<close>, the line that \<open>formatLogEntry\<close> builds holds
  \<open>Jan 15 14:30:45\<close>, \<open>[INFO]\<close>, \<open>hi\<close> and \<open>{x=1}\<close>, in that order. What is asked of the
  libraries: the time package parses the timestamp and prints it, in the layout of the
  source, as \<open>Jan 15 14:30:45\<close>; fmt prints the number 1 as \<open>1\<close>; and lipgloss, for each of
  the four texts that the function renders here, in the style it renders it with, gives
  a string that holds the text in one piece.\<close>

theorem formatLogEntry_sample:
  assumes "map_of e ''timestamp'' = Some (JString ''2024-01-15T14:30:45Z'')"
    and "map_of e ''level'' = Some (JString ''INFO'')"
    and "map_of e ''message'' = Some (JString ''hi'')"
    and "map_of e ''data'' = Some (JObject [(''x'', JNumber 1)])"
    and "time_Parse E RFC3339 ''2024-01-15T14:30:45Z'' = Inr t"
    and "time_Format E t ''Jan 02 15:04:05'' = ''Jan 15 14:30:45''"
    and "fmt_v E (JNumber 1) = ''1''"
    and "\<exists>pre post. lipgloss_Render E (Foreground ''240'' NewStyle) ''Jan 15 14:30:45'' =
                     pre @ ''Jan 15 14:30:45'' @ post"
    and "\<exists>pre post. lipgloss_Render E (Bold True (Foreground ''46'' NewStyle)) ''[INFO]'' =
                     pre @ ''[INFO]'' @ post"
    and "\<exists>pre post. lipgloss_Render E (Foreground ''252'' NewStyle) ''hi'' = pre @ ''hi'' @ post"
    and "\<exists>pre post. lipgloss_Render E (Foreground ''99'' NewStyle) ''{x=1}'' =
                     pre @ ''{x=1}'' @ post"
  shows "\<exists>a b c d z. formatLogEntry E e =
           a @ ''Jan 15 14:30:45'' @ b @ ''[INFO]'' @ c @ ''hi'' @ d @ ''{x=1}'' @ z"
proof -
  let ?grey = "Foreground ''240'' NewStyle"
  let ?green = "Bold True (Foreground ''46'' NewStyle)"
  let ?white = "Foreground ''252'' NewStyle"
  let ?violet = "Foreground ''99'' NewStyle"
  obtain p1 q1 where r1: "lipgloss_Render E ?grey ''Jan 15 14:30:45'' = p1 @ ''Jan 15 14:30:45'' @ q1"
    using assms(8) by blast
  obtain p2 q2 where r2: "lipgloss_Render E ?green ''[INFO]'' = p2 @ ''[INFO]'' @ q2"
    using assms(9) by blast
  obtain p3 q3 where r3: "lipgloss_Render E ?white ''hi'' = p3 @ ''hi'' @ q3"
    using assms(10) by blast
  obtain p4 q4 where r4: "lipgloss_Render E ?violet ''{x=1}'' = p4 @ ''{x=1}'' @ q4"
    using assms(11) by blast
  have "formatLogEntry E e =
          lipgloss_Render E ?grey ''Jan 15 14:30:45'' @ '' '' @
          lipgloss_Render E ?green ''[INFO]'' @ '' '' @
          lipgloss_Render E ?white ''hi'' @ '' '' @
          lipgloss_Render E ?violet ''{x=1}''"
    by (simp add: formatLogEntry_def entry_string_def entry_map_def levelColor_def
          assms(1-7) Let_def)
  then have "formatLogEntry E e =
          p1 @ ''Jan 15 14:30:45'' @ (q1 @ '' '' @ p2) @ ''[INFO]'' @ (q2 @ '' '' @ p3) @
          ''hi'' @ (q3 @ '' '' @ p4) @ ''{x=1}'' @ q4"
    by (simp only: r1 r2 r3 r4 append_assoc)
  then show ?thesis
    by blast
qed

theorem formatLogEntry_sample_witness:
  "map_of sample_record ''timestamp'' = Some (JString ''2024-01-15T14:30:45Z'') \<and>
   map_of sample_record ''level'' = Some (JString ''INFO'') \<and>
   map_of sample_record ''message'' = Some (JString ''hi'') \<and>
   map_of sample_record ''data'' = Some (JObject [(''x'', JNumber 1)]) \<and>
   time_Parse E0 RFC3339 ''2024-01-15T14:30:45Z'' = Inr (at_time 1705329045) \<and>
   time_Format E0 (at_time 1705329045) ''Jan 02 15:04:05'' = ''Jan 15 14:30:45'' \<and>
   fmt_v E0 (JNumber 1) = ''1'' \<and>
   lipgloss_Render E0 (Foreground ''240'' NewStyle) ''Jan 15 14:30:45'' =
     ([CHR 0x1B] @ ''[38;5;240m'') @ ''Jan 15 14:30:45'' @ ([CHR 0x1B] @ ''[0m'') \<and>
   lipgloss_Render E0 (Bold True (Foreground ''46'' NewStyle)) ''[INFO]'' =
     ([CHR 0x1B] @ ''[1;38;5;46m'') @ ''[INFO]'' @ ([CHR 0x1B] @ ''[0m'') \<and>
   lipgloss_Render E0 (Foreground ''252'' NewStyle) ''hi'' =
     ([CHR 0x1B] @ ''[38;5;252m'') @ ''hi'' @ ([CHR 0x1B] @ ''[0m'') \<and>
   lipgloss_Render E0 (Foreground ''99'' NewStyle) ''{x=1}'' =
     ([CHR 0x1B] @ ''[38;5;99m'') @ ''{x=1}'' @ ([CHR 0x1B] @ ''[0m'') \<and>
   json_Unmarshal E0 sample_line = Inr sample_record \<and>
   (\<exists>a b c d z. formatLogEntry E0 sample_record =
           a @ ''Jan 15 14:30:45'' @ b @ ''[INFO]'' @ c @ ''hi'' @ d @ ''{x=1}'' @ z)"
proof -
  have h1: "map_of sample_record ''timestamp'' = Some (JString ''2024-01-15T14:30:45Z'')"
    and h2: "map_of sample_record ''level'' = Some (JString ''INFO'')"
    and h3: "map_of sample_record ''message'' = Some (JString ''hi'')"
    and h4: "map_of sample_record ''data'' = Some (JObject [(''x'', JNumber 1)])"
    by (simp_all add: sample_record_def)
  have h5: "time_Parse E0 RFC3339 ''2024-01-15T14:30:45Z'' = Inr (at_time 1705329045)"
    by code_simp
  have h6: "time_Format E0 (at_time 1705329045) ''Jan 02 15:04:05'' = ''Jan 15 14:30:45''"
    by code_simp
  have h7: "fmt_v E0 (JNumber 1) = ''1''"
    by code_simp
  have r1: "lipgloss_Render E0 (Foreground ''240'' NewStyle) ''Jan 15 14:30:45'' =
     ([CHR 0x1B] @ ''[38;5;240m'') @ ''Jan 15 14:30:45'' @ ([CHR 0x1B] @ ''[0m'')"
    by code_simp
  have r2: "lipgloss_Render E0 (Bold True (Foreground ''46'' NewStyle)) ''[INFO]'' =
     ([CHR 0x1B] @ ''[1;38;5;46m'') @ ''[INFO]'' @ ([CHR 0x1B] @ ''[0m'')"
    by code_simp
  have r3: "lipgloss_Render E0 (Foreground ''252'' NewStyle) ''hi'' =
     ([CHR 0x1B] @ ''[38;5;252m'') @ ''hi'' @ ([CHR 0x1B] @ ''[0m'')"
    by code_simp
  have r4: "lipgloss_Render E0 (Foreground ''99'' NewStyle) ''{x=1}'' =
     ([CHR 0x1B] @ ''[38;5;99m'') @ ''{x=1}'' @ ([CHR 0x1B] @ ''[0m'')"
    by code_simp
  have u: "json_Unmarshal E0 sample_line = Inr sample_record"
    by code_simp
  have e1: "\<exists>pre post. lipgloss_Render E0 (Foreground ''240'' NewStyle) ''Jan 15 14:30:45'' =
                     pre @ ''Jan 15 14:30:45'' @ post"
    using r1 by blast
  have e2: "\<exists>pre post. lipgloss_Render E0 (Bold True (Foreground ''46'' NewStyle)) ''[INFO]'' =
                     pre @ ''[INFO]'' @ post"
    using r2 by blast
  have e3: "\<exists>pre post. lipgloss_Render E0 (Foreground ''252'' NewStyle) ''hi'' =
                     pre @ ''hi'' @ post"
    using r3 by blast
  have e4: "\<exists>pre post. lipgloss_Render E0 (Foreground ''99'' NewStyle) ''{x=1}'' =
                     pre @ ''{x=1}'' @ post"
    using r4 by blast
  from formatLogEntry_sample [OF h1 h2 h3 h4 h5 h6 h7 e1 e2 e3 e4]
  have "\<exists>a b c d z. formatLogEntry E0 sample_record =
           a @ ''Jan 15 14:30:45'' @ b @ ''[INFO]'' @ c @ ''hi'' @ d @ ''{x=1}'' @ z" .
  with h1 h2 h3 h4 h5 h6 h7 r1 r2 r3 r4 u show ?thesis
    by (intro conjI)
qed

subsection \<open>Lines that are not JSON\<close>

lemma scanLoop_acc: "scanLoop E ls acc = acc @ scanLoop E ls ''''"
proof (induction ls arbitrary: acc)
  case Nil
  show ?case by simp
next
  case (Cons l ls)
  show ?case
  proof (cases "strings_TrimSpace E l = ''''")
    case True
    with Cons.IH [of acc] show ?thesis by simp
  next
    case False
    show ?thesis
    proof (cases "json_Unmarshal E (strings_TrimSpace E l)")
      case (Inl err)
      with False Cons.IH [of "acc @ strings_TrimSpace E l @ newline"]
        Cons.IH [of "strings_TrimSpace E l @ newline"]
      show ?thesis by simp
    next
      case (Inr logEntry)
      with False Cons.IH [of "acc @ formatLogEntry E logEntry @ newline"]
        Cons.IH [of "formatLogEntry E logEntry @ newline"]
      show ?thesis by simp
    qed
  qed
qed

lemma scanLoop_append:
  "scanLoop E (xs @ ys) acc = scanLoop E ys (scanLoop E xs acc)"
  by (induction xs arbitrary: acc) (simp_all add: Let_def split: sum.split)

text \<open>A line that \<open>json.Unmarshal\<close> rejects passes through. When the file under the cursor
  opens and one of its lines, trimmed, is not empty and is rejected by \<open>json.Unmarshal\<close>,
  pressing \<open>v\<close> on the list, with no confirmation pending, changes nothing outside the
  program, raises no error (the message stays as it is), moves to the LogView screen with
  the cursor at 0, and the text shown is: what the lines before it give, then the trimmed
  line as it is and a newline, then what the lines after it give.\<close>

lemma malformed_line_passthrough:
  assumes "screen m = screenLogs"
    and "\<not> confirmingDelete m" and "\<not> confirmingClear m"
    and "index (logFiles m) (cursor m) = Some path"
    and "os_Open E w path = Inr (before @ [text] @ after)"
    and "strings_TrimSpace E text \<noteq> ''''"
    and "json_Unmarshal E (strings_TrimSpace E text) = Inl err"
  shows "\<exists>m'. Update E w m (KeyMsg ''v'') = Some (m', NoCmd, w) \<and>
              screen m' = screenLogView \<and> cursor m' = 0 \<and> message m' = message m \<and>
              logContent m' =
                scanLoop E before '''' @ strings_TrimSpace E text @ newline @
                scanLoop E after ''''"
proof -
  from assms(4) have in_range: "cursor m < len (logFiles m)" "logFiles m \<noteq> []"
    by (auto simp: index_def split: if_splits)
  have "scanLoop E (before @ [text] @ after) '''' =
          scanLoop E after (scanLoop E before '''' @ strings_TrimSpace E text @ newline)"
    using assms(6,7) by (simp add: scanLoop_append Let_def)
  also have "\<dots> = scanLoop E before '''' @ strings_TrimSpace E text @ newline @
                   scanLoop E after ''''"
    using scanLoop_acc [of E after "scanLoop E before '''' @ strings_TrimSpace E text @ newline"]
    by simp
  finally have content: "scanLoop E (before @ [text] @ after) '''' =
      scanLoop E before '''' @ strings_TrimSpace E text @ newline @ scanLoop E after ''''" .
  have "Update E w m (KeyMsg ''v'') =
          Some (m\<lparr>screen := screenLogView,
                  logContent := scanLoop E (before @ [text] @ after) '''',
                  cursor := 0\<rparr>, NoCmd, w)"
    using assms(1-5) in_range
    by (simp add: Update_def Update_key_def case_v_def with_world_def handleViewLog_def
          viewLogContent_def)
  with content show ?thesis
    by simp
qed

text \<open>The line \<open>null\<close> is where the loop parts from that. It is not empty and it is no JSON
  object, but \<open>json.Unmarshal\<close> of \<open>null\<close> into the map is no error and leaves the map nil;
  the loop then formats the nil map, which gives the empty string, and writes an empty
  line.\<close>

lemma null_line_formats_empty:
  assumes "strings_TrimSpace E text = ''null''" and "json_Unmarshal E ''null'' = Inr []"
  shows "scanLoop E [text] '''' = newline"
  using assms
  by (simp add: formatLogEntry_def entry_string_def entry_map_def Let_def)

text \<open>C8 fails on the code. In \<open>world_null\<close> the first log file of \<open>svc\<close> holds the line
  \<open>null\<close> and the line \<open>not json\<close> between blanks. Neither is blank and neither is a
  JSON object. Viewing the file shows an empty line for the first and the second as it
  is, trimmed: \<open>null\<close> does not appear in the text.\<close>

theorem null_line_not_passed_through:
  "strings_TrimSpace E0 ''null'' = ''null'' \<and>
   json_Unmarshal E0 ''null'' = Inr [] \<and>
   isl (json_Unmarshal E0 ''not json'') \<and>
   os_Open E0 world_null log14 = Inr [''null'', ''  not json  ''] \<and>
   screen (state_after E0 world_null [''down'', ''down'', ''enter'', ''enter'', ''v''])
     = screenLogView \<and>
   logContent (state_after E0 world_null [''down'', ''down'', ''enter'', ''enter'', ''v''])
     = newline @ ''not json'' @ newline"
  by code_simp

subsection \<open>The file named in the header of the log view\<close>

lemma case_up_dfi:
  "pred_option (\<lambda>(m', c, w'). deleteFileIndex m' = deleteFileIndex m) (case_up w m)"
  by (simp add: case_up_def)

lemma case_down_dfi:
  "pred_option (\<lambda>(m', c, w'). deleteFileIndex m' = deleteFileIndex m) (case_down w m)"
  by (simp add: case_down_def)

lemma case_enter_dfi:
  "pred_option (\<lambda>(m', c, w'). deleteFileIndex m' = deleteFileIndex m) (case_enter E w m)"
  by (cases "screen m")
     (simp_all add: case_enter_def install_enter_def handleEnter_def Let_def
        split: option.split prod.split)

lemma case_v_dfi:
  "pred_option (\<lambda>(m', c, w'). deleteFileIndex m' = deleteFileIndex m) (case_v E w m)"
  by (simp add: case_v_def handleViewLog_def viewLogContent_def split: option.split sum.split)

lemma case_d_dfi:
  "pred_option (\<lambda>(m', c, w'). deleteFileIndex m' = deleteFileIndex_step m (KeyMsg ''d''))
     (case_d E w m)"
  by (simp add: case_d_def handleDeleteLog_def deleteFileIndex_step_def split: option.split)

lemma case_c_dfi:
  "pred_option (\<lambda>(m', c, w'). deleteFileIndex m' = deleteFileIndex m) (case_c E w m)"
  by (simp add: case_c_def handleClearOldLogs_def Let_def)

lemma case_y_dfi:
  "pred_option (\<lambda>(m', c, w'). deleteFileIndex m' = deleteFileIndex m) (case_y E w m)"
  by (cases "language m")
     (simp_all add: case_y_def confirmDelete_def confirmClearOldLogs_def Let_def
        split: option.split prod.split)

lemma case_plus_dfi:
  "pred_option (\<lambda>(m', c, w'). deleteFileIndex m' = deleteFileIndex m) (case_plus w m)"
  by (simp add: case_plus_def)

lemma case_minus_dfi:
  "pred_option (\<lambda>(m', c, w'). deleteFileIndex m' = deleteFileIndex m) (case_minus w m)"
  by (simp add: case_minus_def)

lemma case_esc_dfi:
  "pred_option (\<lambda>(m', c, w'). deleteFileIndex m' = deleteFileIndex m) (case_esc w m)"
  by (simp add: case_esc_def)

lemma case_default_dfi:
  "pred_option (\<lambda>(m', c, w'). deleteFileIndex m' = deleteFileIndex m) (case_default w m)"
  by (simp add: case_default_def)

lemma deleteFileIndex_step_other:
  "k \<noteq> ''d'' \<Longrightarrow> deleteFileIndex_step m (KeyMsg k) = deleteFileIndex m"
  by (simp add: deleteFileIndex_step_def)

lemma Update_key_dfi:
  "pred_option (\<lambda>(m', c, w'). deleteFileIndex m' = deleteFileIndex_step m (KeyMsg k))
     (Update_key E w m k)"
proof (rule Update_key_cases
    [where P = "pred_option (\<lambda>(m', c, w'). deleteFileIndex m' =
                               deleteFileIndex_step m (KeyMsg k))"])
  assume "k = ''q'' \<or> k = ''ctrl+c''"
  then have "deleteFileIndex_step m (KeyMsg k) = deleteFileIndex m"
    by (intro deleteFileIndex_step_other) auto
  then show "pred_option (\<lambda>(m', c, w'). deleteFileIndex m' = deleteFileIndex_step m (KeyMsg k))
               (Some (m, Quit, w))"
    by simp
next
  assume "k = ''up'' \<or> k = ''k''"
  then have "deleteFileIndex_step m (KeyMsg k) = deleteFileIndex m"
    by (intro deleteFileIndex_step_other) auto
  then show "pred_option (\<lambda>(m', c, w'). deleteFileIndex m' = deleteFileIndex_step m (KeyMsg k))
               (case_up w m)"
    by (simp only: case_up_dfi)
next
  assume "k = ''down'' \<or> k = ''j''"
  then have "deleteFileIndex_step m (KeyMsg k) = deleteFileIndex m"
    by (intro deleteFileIndex_step_other) auto
  then show "pred_option (\<lambda>(m', c, w'). deleteFileIndex m' = deleteFileIndex_step m (KeyMsg k))
               (case_down w m)"
    by (simp only: case_down_dfi)
next
  assume "k = ''enter''"
  then have "deleteFileIndex_step m (KeyMsg k) = deleteFileIndex m"
    by (intro deleteFileIndex_step_other) auto
  then show "pred_option (\<lambda>(m', c, w'). deleteFileIndex m' = deleteFileIndex_step m (KeyMsg k))
               (case_enter E w m)"
    by (simp only: case_enter_dfi)
next
  assume "k = ''v''"
  then have "deleteFileIndex_step m (KeyMsg k) = deleteFileIndex m"
    by (intro deleteFileIndex_step_other) auto
  then show "pred_option (\<lambda>(m', c, w'). deleteFileIndex m' = deleteFileIndex_step m (KeyMsg k))
               (case_v E w m)"
    by (simp only: case_v_dfi)
next
  assume "k = ''d''"
  then show "pred_option (\<lambda>(m', c, w'). deleteFileIndex m' = deleteFileIndex_step m (KeyMsg k))
               (case_d E w m)"
    by (simp only: case_d_dfi)
next
  assume "k = ''c''"
  then have "deleteFileIndex_step m (KeyMsg k) = deleteFileIndex m"
    by (intro deleteFileIndex_step_other) auto
  then show "pred_option (\<lambda>(m', c, w'). deleteFileIndex m' = deleteFileIndex_step m (KeyMsg k))
               (case_c E w m)"
    by (simp only: case_c_dfi)
next
  assume "k = ''y''"
  then have "deleteFileIndex_step m (KeyMsg k) = deleteFileIndex m"
    by (intro deleteFileIndex_step_other) auto
  then show "pred_option (\<lambda>(m', c, w'). deleteFileIndex m' = deleteFileIndex_step m (KeyMsg k))
               (case_y E w m)"
    by (simp only: case_y_dfi)
next
  assume "k = ''+'' \<or> k = ''=''"
  then have "deleteFileIndex_step m (KeyMsg k) = deleteFileIndex m"
    by (intro deleteFileIndex_step_other) auto
  then show "pred_option (\<lambda>(m', c, w'). deleteFileIndex m' = deleteFileIndex_step m (KeyMsg k))
               (case_plus w m)"
    by (simp only: case_plus_dfi)
next
  assume "k = ''-'' \<or> k = ''_''"
  then have "deleteFileIndex_step m (KeyMsg k) = deleteFileIndex m"
    by (intro deleteFileIndex_step_other) auto
  then show "pred_option (\<lambda>(m', c, w'). deleteFileIndex m' = deleteFileIndex_step m (KeyMsg k))
               (case_minus w m)"
    by (simp only: case_minus_dfi)
next
  assume "k = ''esc''"
  then have "deleteFileIndex_step m (KeyMsg k) = deleteFileIndex m"
    by (intro deleteFileIndex_step_other) auto
  then show "pred_option (\<lambda>(m', c, w'). deleteFileIndex m' = deleteFileIndex_step m (KeyMsg k))
               (case_esc w m)"
    by (simp only: case_esc_dfi)
next
  assume "k \<notin> set [''q'', ''ctrl+c'', ''up'', ''k'', ''down'', ''j'', ''enter'', ''v'', ''d'',
                      ''c'', ''y'', ''+'', ''='', ''-'', ''_'', ''esc'']"
  then have "deleteFileIndex_step m (KeyMsg k) = deleteFileIndex m"
    by (intro deleteFileIndex_step_other) auto
  then show "pred_option (\<lambda>(m', c, w'). deleteFileIndex m' = deleteFileIndex_step m (KeyMsg k))
               (case_default w m)"
    by (simp only: case_default_dfi)
qed

lemma Update_dfi:
  assumes "Update E w m x = Some (m', c, w')"
  shows "deleteFileIndex m' = deleteFileIndex_step m x"
proof (cases x)
  case (KeyMsg k)
  with assms Update_key_dfi [of m k E w] show ?thesis
    by (simp add: Update_def)
next
  case OtherMsg
  with assms show ?thesis
    by (simp add: Update_def deleteFileIndex_step_def)
qed

lemma case_v_frame:
  assumes "case_v E w m = Some (m', c, w')"
  shows "w' = w \<and> c = NoCmd \<and>
         (\<exists>s lc cu msg. m' = m\<lparr>screen := s, logContent := lc, cursor := cu, message := msg\<rparr>)"
proof -
  have keep: "m = m\<lparr>screen := screen m, logContent := logContent m, cursor := cursor m,
                     message := message m\<rparr>"
    by simp
  have err: "m\<lparr>message := t\<rparr> =
               m\<lparr>screen := screen m, logContent := logContent m, cursor := cursor m,
                  message := t\<rparr>" for t
    by simp
  have ok: "m\<lparr>screen := s, logContent := lc, cursor := cu\<rparr> =
              m\<lparr>screen := s, logContent := lc, cursor := cu, message := message m\<rparr>" for s lc cu
    by simp
  show ?thesis
  proof (cases "screen m = screenLogs \<and> len (logFiles m) > 0 \<and>
                \<not> confirmingDelete m \<and> \<not> confirmingClear m \<and>
                cursor m < len (logFiles m)")
    case False
    then have "case_v E w m = Some (m, NoCmd, w)"
      by (auto simp: case_v_def handleViewLog_def with_world_def)
    with assms have same: "m' = m" "c = NoCmd" "w' = w"
      by simp_all
    from same(1) keep
    have "m' = m\<lparr>screen := screen m, logContent := logContent m, cursor := cursor m,
                   message := message m\<rparr>"
      by (rule trans)
    with same(2,3) show ?thesis by blast
  next
    case True
    then have v: "case_v E w m = with_world w (viewLogContent E w m)"
      by (simp add: case_v_def handleViewLog_def)
    show ?thesis
    proof (cases "index (logFiles m) (cursor m)")
      case None
      with v assms show ?thesis
        by (simp add: viewLogContent_def with_world_def)
    next
      case (Some filePath)
      show ?thesis
      proof (cases "os_Open E w filePath")
        case (Inl e)
        with v Some assms
        have "m' = m\<lparr>message := mark_fail @ '' Error reading log: '' @ e\<rparr>" "c = NoCmd" "w' = w"
          by (simp_all add: viewLogContent_def with_world_def)
        with err [of "mark_fail @ '' Error reading log: '' @ e"] show ?thesis by blast
      next
        case (Inr lines)
        with v Some assms
        have "m' = m\<lparr>screen := screenLogView, logContent := scanLoop E lines '''',
                       cursor := 0\<rparr>" "c = NoCmd" "w' = w"
          by (simp_all add: viewLogContent_def with_world_def)
        with ok [where s = screenLogView and lc = "scanLoop E lines ''''" and cu = 0]
        show ?thesis by blast
      qed
    qed
  qed
qed

lemma renderLogView_header:
  assumes "renderLogView_filename E m = Some filename"
  shows "\<exists>rest. renderLogView E m =
           Some (lipgloss_Render E (Foreground ''99'' (Bold True NewStyle))
                   (mark_clipboard @ '' Viewing: '' @ filename) @ rest)"
  using assms by (simp add: renderLogView_def Let_def)

text \<open>C10. Pressing \<open>v\<close> changes nothing outside the program and, of the state, at most
  \<open>screen\<close>, \<open>logContent\<close>, \<open>cursor\<close> and \<open>message\<close>; \<open>deleteFileIndex\<close> and \<open>logFiles\<close> stay
  as they are. The header of the log view therefore names the base name of
  \<open>logFiles[deleteFileIndex]\<close> (no name when the index is beyond the list), whatever file
  the cursor was on. \<open>deleteFileIndex\<close> is 0 in the initial state, and the only message
  that writes it is \<open>d\<close> where it opens the delete prompt, which stores the cursor.\<close>

theorem view_keeps_deleteFileIndex:
  assumes "Update E w m (KeyMsg ''v'') = Some (m', c, w')"
  shows "w' = w \<and> c = NoCmd \<and>
         (\<exists>s lc cu msg. m' = m\<lparr>screen := s, logContent := lc, cursor := cu, message := msg\<rparr>) \<and>
         deleteFileIndex m' = deleteFileIndex m \<and> logFiles m' = logFiles m \<and>
         renderLogView_filename E m' =
           (if deleteFileIndex m < len (logFiles m)
            then map_option (filepath_Base E) (index (logFiles m) (deleteFileIndex m))
            else Some '''') \<and>
         (\<forall>filename. renderLogView_filename E m' = Some filename \<longrightarrow>
            (\<exists>rest. renderLogView E m' =
               Some (lipgloss_Render E (Foreground ''99'' (Bold True NewStyle))
                       (mark_clipboard @ '' Viewing: '' @ filename) @ rest))) \<and>
         deleteFileIndex (NewModel E w0) = 0 \<and>
         (\<forall>x m2 c2 w2. Update E w m x = Some (m2, c2, w2) \<longrightarrow>
            deleteFileIndex m2 = deleteFileIndex_step m x)"
proof -
  from assms have v: "case_v E w m = Some (m', c, w')"
    by (simp add: Update_def Update_key_def)
  from case_v_frame [OF v]
  obtain s lc cu msg where fr: "w' = w" "c = NoCmd"
      "m' = m\<lparr>screen := s, logContent := lc, cursor := cu, message := msg\<rparr>"
    by blast
  from fr(3) have same: "deleteFileIndex m' = deleteFileIndex m" "logFiles m' = logFiles m"
    by simp_all
  then have name: "renderLogView_filename E m' =
           (if deleteFileIndex m < len (logFiles m)
            then map_option (filepath_Base E) (index (logFiles m) (deleteFileIndex m))
            else Some '''')"
    by (simp add: renderLogView_filename_def)
  have init: "deleteFileIndex (NewModel E w0) = 0"
    by (simp add: NewModel_def Let_def)
  from fr same name init renderLogView_header [of E m'] Update_dfi [of E w m]
  show ?thesis
    by blast
qed

theorem view_keeps_deleteFileIndex_witness:
  "index (logFiles (state_after E0 world_plain [''down'', ''down'', ''enter'', ''enter'', ''down'']))
     (cursor (state_after E0 world_plain [''down'', ''down'', ''enter'', ''enter'', ''down'']))
     = Some log15 \<and>
   filepath_Base E0 log15 = ''logdog-2024-01-15.json'' \<and>
   (\<exists>m'. Update E0 world_plain
            (state_after E0 world_plain [''down'', ''down'', ''enter'', ''enter'', ''down''])
            (KeyMsg ''v'') = Some (m', NoCmd, world_plain) \<and>
         renderLogView_filename E0 m' = Some ''logdog-2024-01-14.json'')"
proof -
  let ?m = "state_after E0 world_plain [''down'', ''down'', ''enter'', ''enter'', ''down'']"
  have sel: "index (logFiles ?m) (cursor ?m) = Some log15"
    by code_simp
  have base: "filepath_Base E0 log15 = ''logdog-2024-01-15.json''"
    by code_simp
  have r: "returns (Update E0 world_plain ?m (KeyMsg ''v''))"
    by code_simp
  then obtain m' c w' where u: "Update E0 world_plain ?m (KeyMsg ''v'') = Some (m', c, w')"
    by (cases "Update E0 world_plain ?m (KeyMsg ''v'')") (auto simp: returns_def)
  have hd: "(if deleteFileIndex ?m < len (logFiles ?m)
             then map_option (filepath_Base E0) (index (logFiles ?m) (deleteFileIndex ?m))
             else Some '''') = Some ''logdog-2024-01-14.json''"
    by code_simp
  from view_keeps_deleteFileIndex [OF u, of world_plain] hd
  have "w' = world_plain" "c = NoCmd"
       "renderLogView_filename E0 m' = Some ''logdog-2024-01-14.json''"
    by simp_all
  with u sel base show ?thesis
    by blast
qed

subsection \<open>Deleting a file of a global project\<close>

text \<open>C1 fails on the code. In \<open>world_go\<close> the working directory is a Go project without
  logs and the global project \<open>svc\<close> has two log files. The user opens the global
  projects, selects \<open>svc\<close>, moves to the second file, presses \<open>d\<close> and confirms with \<open>y\<close>.
  \<open>confirmDelete\<close> removes the file and reloads the list from the language handle, for the
  working directory: the list is empty. Its clamp only acts on a list that is not empty,
  so the cursor stays at 1, above the bound 0 of an empty list (\<open>getMaxCursor\<close> itself
  gives -1). \<open>confirmClearOldLogs\<close> has the branch that resets the cursor to 0 on an empty
  list; \<open>confirmDelete\<close> lacks it.\<close>

theorem cursor_beyond_empty_list:
  "screen (state_after E0 world_go
      [''down'', ''down'', ''enter'', ''enter'', ''down'', ''d'', ''y'']) = screenLogs \<and>
   logFiles (state_after E0 world_go
      [''down'', ''down'', ''enter'', ''enter'', ''down'', ''d'', ''y'']) = [] \<and>
   cursor (state_after E0 world_go
      [''down'', ''down'', ''enter'', ''enter'', ''down'', ''d'', ''y'']) = 1 \<and>
   spec_maxCursor (state_after E0 world_go
      [''down'', ''down'', ''enter'', ''enter'', ''down'', ''d'', ''y'']) = 0 \<and>
   getMaxCursor (state_after E0 world_go
      [''down'', ''down'', ''enter'', ''enter'', ''down'', ''d'', ''y'']) = - 1"
  by code_simp

text \<open>C3 fails on the code. \<open>confirmDelete\<close> and \<open>confirmClearOldLogs\<close> reload the list only
  through the language handle, for the working directory, whatever project the list
  belongs to. In \<open>world_plain\<close> no language is detected: the user selects the global
  project \<open>svc\<close>, deletes its first file and confirms. The file is removed (the message
  says so, and stat fails on it afterwards), but the list is not reloaded and still holds
  its path, while the project now has one file. In \<open>world_go\<close> a language is detected:
  after the delete of the second file of \<open>svc\<close> the list is the one of the working
  directory, which is empty, while the project still has its first file.\<close>

theorem stale_list_after_global_delete:
  "logFiles (state_after E0 world_plain
      [''down'', ''down'', ''enter'', ''enter'', ''d'', ''y'']) = [log14, log15] \<and>
   message (state_after E0 world_plain
      [''down'', ''down'', ''enter'', ''enter'', ''d'', ''y''])
     = mark_ok @ '' Deleted logdog-2024-01-14.json'' \<and>
   isl (os_Stat E0 (world_after E0 world_plain
      [''down'', ''down'', ''enter'', ''enter'', ''d'', ''y'']) log14) \<and>
   getLogFilesForProject E0 (world_after E0 world_plain
      [''down'', ''down'', ''enter'', ''enter'', ''d'', ''y'']) ''svc'' = [log15] \<and>
   selectedProject (state_after E0 world_go
      [''down'', ''down'', ''enter'', ''enter'', ''down'', ''d'', ''y'']) = ''svc'' \<and>
   logFiles (state_after E0 world_go
      [''down'', ''down'', ''enter'', ''enter'', ''down'', ''d'', ''y'']) = [] \<and>
   getLogFilesForProject E0 (world_after E0 world_go
      [''down'', ''down'', ''enter'', ''enter'', ''down'', ''d'', ''y'']) ''svc'' = [log14]"
  by code_simp

end
